theory Spec2Isabelle
  imports Complex_Main "HOL-Library.Sublist" "HOL-Library.Multiset"
    "HOL-Library.List_Lexorder" "HOL-Library.Char_ord"
begin

section \<open>Go strings\<close>

text \<open>
  A Go \<^verbatim>\<open>string\<close> is a sequence of bytes; \<^verbatim>\<open>len\<close> counts bytes, slicing
  \<^verbatim>\<open>s[a:b]\<close> cuts bytes and \<^verbatim>\<open><\<close> compares byte by byte. It is modelled as
  \<^typ>\<open>string\<close> (a list of 8-bit characters) with the lexicographic order.
\<close>

definition Contains :: "string \<Rightarrow> string \<Rightarrow> bool" where
  \<comment> \<open>\<^verbatim>\<open>strings.Contains(s, substr)\<close>\<close>
  "Contains s substr = sublist substr s"

definition HasPrefix :: "string \<Rightarrow> string \<Rightarrow> bool" where
  \<comment> \<open>\<^verbatim>\<open>strings.HasPrefix(s, p)\<close>\<close>
  "HasPrefix s p = prefix p s"

section \<open>key\_switch.go\<close>

text \<open>
  \<^verbatim>\<open>maskKey\<close>: \<^verbatim>\<open>key[:4]\<close> is \<open>take 4 key\<close> and \<^verbatim>\<open>key[len(key)-4:]\<close> is
  \<open>drop (length key - 4) key\<close>; both slices are in range because the branch is only
  reached with \<^verbatim>\<open>len(key) > 8\<close>.
\<close>

definition maskKey :: "string \<Rightarrow> string" where
  "maskKey key =
     (if length key \<le> 8 then ''****''
      else take 4 key @ ''****'' @ drop (length key - 4) key)"

section \<open>Time\<close>

text \<open>
  A \<^verbatim>\<open>time.Time\<close> is modelled as the number of nanoseconds since Go's zero time
  (January 1, year 1, 00:00:00 UTC), a \<^verbatim>\<open>time.Duration\<close> as a number of nanoseconds.
  The clock reading \<^verbatim>\<open>time.Now()\<close> is an argument \<open>now\<close> of every function that
  reads the clock.
\<close>

type_synonym time = int
type_synonym duration = int

definition IsZero :: "time \<Rightarrow> bool" where
  "IsZero t = (t = 0)"

definition Before :: "time \<Rightarrow> time \<Rightarrow> bool" where
  \<comment> \<open>\<^verbatim>\<open>t.Before(u)\<close>\<close>
  "Before t u = (t < u)"

definition Add :: "time \<Rightarrow> duration \<Rightarrow> time" where
  \<comment> \<open>\<^verbatim>\<open>t.Add(d)\<close>\<close>
  "Add t d = t + d"

definition Second :: duration where
  "Second = 1000000000"

definition Minute :: duration where
  "Minute = 60 * Second"

section \<open>The endpoint data model\<close>

text \<open>
  The fields of \<^verbatim>\<open>config.EndpointConfig\<close>, \<^verbatim>\<open>EndpointStatus\<close> and \<^verbatim>\<open>Endpoint\<close>
  that the endpoint manager reads or writes. A nil pointer (\<^verbatim>\<open>*bool\<close>,
  \<^verbatim>\<open>*time.Duration\<close>) is \<open>None\<close>.
\<close>

record EndpointConfig =
  Name :: string
  URL :: string
  Group :: string
  Priority :: int
  Tokens :: "(string \<times> string) list"
  ApiKeys :: "(string \<times> string) list"
  Token :: string
  ApiKey :: string
  FailoverEnabled :: "bool option"
  Cooldown :: "duration option"

record EndpointStatus =
  Healthy :: bool
  LastCheck :: time
  NeverChecked :: bool
  ResponseTime :: duration
  ConsecutiveFails :: int
  CooldownUntil :: time
  CooldownReason :: string

record Endpoint =
  Config :: EndpointConfig
  Status :: EndpointStatus

record StrategyConfig =
  Type :: string
  FastTestEnabled :: bool

record FailoverConfig =
  Enabled :: bool
  DefaultCooldown :: duration

record ManagerConfig =
  Strategy :: StrategyConfig
  Failover :: FailoverConfig

text \<open>
  The group manager, the key manager and the event bus are collaborators whose code
  is outside the files modelled here. The group manager is an abstract state \<open>'g\<close> with
  the four operations the endpoint manager calls; an operation that returns a Go
  \<^verbatim>\<open>error\<close> returns \<open>Some msg\<close> for a non-nil error. Calls to the key manager, the
  event bus, the callbacks and the health probe started with \<^verbatim>\<open>go\<close> are recorded in
  the order they are issued.
\<close>

record 'g GroupManager =
  FilterEndpointsByActiveGroups :: "'g \<Rightarrow> Endpoint list \<Rightarrow> Endpoint list"
  UpdateGroups :: "'g \<Rightarrow> Endpoint list \<Rightarrow> 'g"
  gmManualActivateGroup :: "'g \<Rightarrow> string \<Rightarrow> string option \<times> 'g"
  DeactivateGroup :: "'g \<Rightarrow> string \<Rightarrow> string option \<times> 'g"

datatype Effect =
    InitEndpoint string nat nat
  | KeyRemoveEndpoint string
  | UpdateEndpointKeyCount string nat nat
  | checkEndpointHealth string
  | Publish string string
  | onFailoverTriggered string string
  | onHealthCheckComplete
  | notifyWebGroupChange string string

record 'g Manager =
  endpoints :: "Endpoint list"
  config :: ManagerConfig
  groupManager :: 'g
  eventBus :: bool
  onFailoverTriggeredSet :: bool
  onHealthCheckCompleteSet :: bool
  effects :: "Effect list"

datatype ManagerError =
    EndpointExists string
  | EndpointNotFound string
  | NoFailoverEndpoint
  | ActivateFailed string

section \<open>The Go standard library\<close>

text \<open>
  Four pieces of the standard library are outside the program and too large to write
  out; they are parameters of the model, collected in one record, and every theorem
  below holds for every value of them.
  \<^item> \<open>unicodeToLower\<close>: what \<^verbatim>\<open>strings.ToLower\<close> returns for a text that has a byte
    outside ASCII (the Unicode case tables).
  \<^item> \<open>float64Of\<close>, \<open>float64Mul\<close>, \<open>durationOf\<close>: the conversion of an integer to
    \<^verbatim>\<open>float64\<close>, the \<^verbatim>\<open>float64\<close> product and the conversion of a \<^verbatim>\<open>float64\<close> to
    \<^verbatim>\<open>time.Duration\<close>, over a type \<open>'f\<close> of \<^verbatim>\<open>float64\<close> values.
  \<^item> \<open>pdqsort\<close>: the order in which \<^verbatim>\<open>sort.Slice\<close> leaves a slice of more than 12
    endpoints (pattern-defeating quicksort).
\<close>

record 'f GoLibrary =
  unicodeToLower :: "string \<Rightarrow> string"
  float64Of :: "int \<Rightarrow> 'f"
  float64Mul :: "'f \<Rightarrow> 'f \<Rightarrow> 'f"
  durationOf :: "'f \<Rightarrow> duration"
  pdqsort :: "(Endpoint \<Rightarrow> Endpoint \<Rightarrow> bool) \<Rightarrow> Endpoint list \<Rightarrow> Endpoint list"

section \<open>The standard library's sort.Slice\<close>

text \<open>
  \<^verbatim>\<open>sort.Slice\<close> is not stable. For slices of at most 12 elements it runs (from
  Go 1.19 on; the project asks for Go 1.21) the library's insertion sort
  \<^verbatim>\<open>for i := a+1; i < b; i++ { for j := i; j > a && less(j, j-1); j-- { swap(j, j-1) } }\<close>,
  which is modelled as it is (\<open>lessFn\<close> is the comparison given to \<^verbatim>\<open>sort.Slice\<close>):
  \<open>insertLess\<close> is the inner loop, moving the new element \<open>x\<close> to the left past every
  element it is less than; its list argument is the part of the slice already sorted,
  nearest element first.
\<close>

fun insertLess :: "('a \<Rightarrow> 'a \<Rightarrow> bool) \<Rightarrow> 'a \<Rightarrow> 'a list \<Rightarrow> 'a list" where
  "insertLess lessFn x [] = [x]"
| "insertLess lessFn x (y # ys) =
     (if lessFn x y then y # insertLess lessFn x ys else x # y # ys)"

definition insertionSort :: "('a \<Rightarrow> 'a \<Rightarrow> bool) \<Rightarrow> 'a list \<Rightarrow> 'a list" where
  "insertionSort lessFn xs = rev (fold (insertLess lessFn) xs [])"

text \<open>
  A longer slice is sorted by the pattern-defeating quicksort, the parameter \<open>pdq\<close>.
  All that is used of it is the contract of \<^verbatim>\<open>sort.Slice\<close>: the result \<open>r\<close> is a
  rearrangement of the slice in which no element is less than an earlier one. (A
  value of the parameter that breaks the contract is not a sort; the model then
  falls back on the insertion sort.) Elements that compare equal may come out in
  any order.
\<close>

definition sort_Slice ::
  "(('a \<Rightarrow> 'a \<Rightarrow> bool) \<Rightarrow> 'a list \<Rightarrow> 'a list) \<Rightarrow> ('a \<Rightarrow> 'a \<Rightarrow> bool) \<Rightarrow> 'a list \<Rightarrow> 'a list" where
  "sort_Slice pdq lessFn xs =
     (if length xs \<le> 12 then insertionSort lessFn xs
      else
        (let r = pdq lessFn xs
         in if mset r = mset xs \<and> sorted_wrt (\<lambda>a b. \<not> lessFn b a) r then r
            else insertionSort lessFn xs))"

section \<open>endpoint\_selection.go\<close>

text \<open>
  The test \<^verbatim>\<open>!CooldownUntil.IsZero() && now.Before(CooldownUntil)\<close>, which the source
  writes out in each function that asks whether an endpoint is cooling.
\<close>

definition inCooldown :: "time \<Rightarrow> Endpoint \<Rightarrow> bool" where
  "inCooldown now ep =
     (\<not> IsZero (CooldownUntil (Status ep)) \<and> Before now (CooldownUntil (Status ep)))"

text \<open>
  \<^verbatim>\<open>getFailoverEndpoints\<close>: the map \<^verbatim>\<open>activeNames\<close> is the list of names of the active
  endpoints; the loop over the snapshot keeps an endpoint when none of the three
  \<^verbatim>\<open>continue\<close> branches is taken and it is healthy.
\<close>

definition failoverEnabled :: "Endpoint \<Rightarrow> bool" where
  \<comment> \<open>the local variable \<^verbatim>\<open>failoverEnabled\<close>: true unless the flag is set and false\<close>
  "failoverEnabled ep =
     (case FailoverEnabled (Config ep) of None \<Rightarrow> True | Some b \<Rightarrow> b)"

definition getFailoverEndpoints ::
  "time \<Rightarrow> Endpoint list \<Rightarrow> Endpoint list \<Rightarrow> Endpoint list" where
  "getFailoverEndpoints now activeEndpoints snapshot =
     (let activeNames = map (\<lambda>ep. Name (Config ep)) activeEndpoints
      in filter (\<lambda>endpoint.
           Name (Config endpoint) \<notin> set activeNames \<and>
           failoverEnabled endpoint \<and>
           \<not> inCooldown now endpoint \<and>
           Healthy (Status endpoint)) snapshot)"

text \<open>
  \<^verbatim>\<open>sortHealthyEndpoints\<close>: \<^verbatim>\<open>showLogs\<close> only selects what is logged. Any strategy
  other than the two named ones leaves the list as it is.
\<close>

definition sortHealthyEndpoints ::
  "'f GoLibrary \<Rightarrow> ('g, 'z) Manager_scheme \<Rightarrow> Endpoint list \<Rightarrow> bool \<Rightarrow> Endpoint list" where
  "sortHealthyEndpoints lib m healthy showLogs =
     (if Type (Strategy (config m)) = ''priority'' then
        sort_Slice (pdqsort lib) (\<lambda>a b. Priority (Config a) < Priority (Config b)) healthy
      else if Type (Strategy (config m)) = ''fastest'' then
        sort_Slice (pdqsort lib) (\<lambda>a b. ResponseTime (Status a) < ResponseTime (Status b)) healthy
      else healthy)"

text \<open>
  \<^verbatim>\<open>GetHealthyEndpoints\<close> reads the clock once itself (\<open>now\<close>) and once more inside
  \<^verbatim>\<open>getFailoverEndpoints\<close> (\<open>now'\<close>).
\<close>

definition GetHealthyEndpoints ::
  "'f GoLibrary \<Rightarrow> 'g GroupManager \<Rightarrow> 'g Manager \<Rightarrow> time \<Rightarrow> time \<Rightarrow> Endpoint list" where
  "GetHealthyEndpoints lib gm m now now' =
     (let snapshot = endpoints m;
          activeEndpoints = FilterEndpointsByActiveGroups gm (groupManager m) snapshot;
          healthy = filter (\<lambda>endpoint. Healthy (Status endpoint) \<and> \<not> inCooldown now endpoint)
                      activeEndpoints
      in if length healthy > 0 then sortHealthyEndpoints lib m healthy True
         else if \<not> Enabled (Failover (config m)) then healthy
         else sortHealthyEndpoints lib m (getFailoverEndpoints now' activeEndpoints snapshot) True)"

definition GetEndpointByNameAny :: "'g Manager \<Rightarrow> string \<Rightarrow> Endpoint option" where
  \<comment> \<open>the first endpoint of the list with that name; \<open>None\<close> is the nil pointer\<close>
  "GetEndpointByNameAny m name = find (\<lambda>endpoint. Name (Config endpoint) = name) (endpoints m)"

text \<open>
  A write through the pointer that \<^verbatim>\<open>GetEndpointByNameAny\<close> (or the equivalent search
  loop) returned: the first endpoint of the list with that name is changed in place.
\<close>

fun modifyEndpoint :: "string \<Rightarrow> (Endpoint \<Rightarrow> Endpoint) \<Rightarrow> Endpoint list \<Rightarrow> Endpoint list" where
  "modifyEndpoint name f [] = []"
| "modifyEndpoint name f (ep # eps) =
     (if Name (Config ep) = name then f ep # eps else ep # modifyEndpoint name f eps)"

section \<open>failover.go\<close>

text \<open>
  The loop of \<^verbatim>\<open>selectNextFailoverEndpoint\<close> over the sorted snapshot: \<open>failoverScan\<close>
  gives the endpoint at which the loop returns, \<open>None\<close> when it runs to the end; the
  function returns that endpoint's name, or the empty string.
\<close>

fun failoverScan :: "time \<Rightarrow> string \<Rightarrow> Endpoint list \<Rightarrow> Endpoint option" where
  "failoverScan now excludeEndpoint [] = None"
| "failoverScan now excludeEndpoint (ep # rest) =
     (if Name (Config ep) = excludeEndpoint then failoverScan now excludeEndpoint rest
      else if \<not> failoverEnabled ep then failoverScan now excludeEndpoint rest
      else if inCooldown now ep then failoverScan now excludeEndpoint rest
      else if \<not> Healthy (Status ep) then failoverScan now excludeEndpoint rest
      else Some ep)"

definition selectNextFailoverEndpoint ::
  "'f GoLibrary \<Rightarrow> ('g, 'z) Manager_scheme \<Rightarrow> time \<Rightarrow> string \<Rightarrow> string" where
  "selectNextFailoverEndpoint lib m now excludeEndpoint =
     (let snapshot = sort_Slice (pdqsort lib)
                       (\<lambda>a b. Priority (Config a) < Priority (Config b)) (endpoints m)
      in case failoverScan now excludeEndpoint snapshot of
           None \<Rightarrow> ''''
         | Some ep \<Rightarrow> Name (Config ep))"

definition IsEndpointInCooldown :: "'g Manager \<Rightarrow> time \<Rightarrow> string \<Rightarrow> bool" where
  "IsEndpointInCooldown m now name =
     (case GetEndpointByNameAny m name of
        None \<Rightarrow> False
      | Some ep \<Rightarrow> inCooldown now ep)"

definition GetEndpointCooldownInfo :: "'g Manager \<Rightarrow> time \<Rightarrow> string \<Rightarrow> bool \<times> time \<times> string" where
  "GetEndpointCooldownInfo m now name =
     (case GetEndpointByNameAny m name of
        None \<Rightarrow> (False, 0, '''')
      | Some ep \<Rightarrow> (inCooldown now ep, CooldownUntil (Status ep), CooldownReason (Status ep)))"

definition ClearEndpointCooldown :: "'g Manager \<Rightarrow> string \<Rightarrow> 'g Manager" where
  "ClearEndpointCooldown m name =
     (case GetEndpointByNameAny m name of
        None \<Rightarrow> m
      | Some ep \<Rightarrow>
          if \<not> IsZero (CooldownUntil (Status ep)) then
            m\<lparr>endpoints := modifyEndpoint name
                 (\<lambda>ep. ep\<lparr>Status := (Status ep)\<lparr>CooldownUntil := 0, CooldownReason := ''''\<rparr>\<rparr>)
                 (endpoints m)\<rparr>
          else m)"

text \<open>
  \<^verbatim>\<open>TriggerRequestFailover\<close> reads the clock when it sets the cooldown (\<open>now\<close>) and again
  inside \<^verbatim>\<open>selectNextFailoverEndpoint\<close> (\<open>now'\<close>). An error of \<^verbatim>\<open>DeactivateGroup\<close> is
  only logged. The result is the pair the Go function returns, with the manager after
  the call.
\<close>

definition cooldownDuration :: "'g Manager \<Rightarrow> Endpoint \<Rightarrow> duration" where
  \<comment> \<open>the local variable \<^verbatim>\<open>cooldownDuration\<close> after its three assignments\<close>
  "cooldownDuration m failedEndpoint =
     (let d = DefaultCooldown (Failover (config m));
          d = (if d = 0 then 10 * Minute else d)
      in case Cooldown (Config failedEndpoint) of
           None \<Rightarrow> d
         | Some c \<Rightarrow> if c > 0 then c else d)"

definition TriggerRequestFailover ::
  "'f GoLibrary \<Rightarrow> 'g GroupManager \<Rightarrow> 'g Manager \<Rightarrow> time \<Rightarrow> time \<Rightarrow> string \<Rightarrow> string \<Rightarrow>
     (string \<times> ManagerError option) \<times> 'g Manager" where
  "TriggerRequestFailover lib gm m now now' failedEndpointName reason =
     (case GetEndpointByNameAny m failedEndpointName of
        None \<Rightarrow> (('''', Some (EndpointNotFound failedEndpointName)), m)
      | Some failedEndpoint \<Rightarrow>
         (let d = cooldownDuration m failedEndpoint;
              m1 = m\<lparr>endpoints := modifyEndpoint failedEndpointName
                     (\<lambda>ep. ep\<lparr>Status := (Status ep)\<lparr>CooldownUntil := Add now d,
                                                     CooldownReason := reason\<rparr>\<rparr>)
                     (endpoints m)\<rparr>;
              m2 = m1\<lparr>groupManager := snd (DeactivateGroup gm (groupManager m1) failedEndpointName)\<rparr>;
              newEndpointName = selectNextFailoverEndpoint lib m2 now' failedEndpointName
          in if newEndpointName = '''' then (('''', Some NoFailoverEndpoint), m2)
             else (case gmManualActivateGroup gm (groupManager m2) newEndpointName of
                    (Some err, g) \<Rightarrow> (('''', Some (ActivateFailed err)), m2\<lparr>groupManager := g\<rparr>)
                  | (None, g) \<Rightarrow>
                      ((newEndpointName, None),
                       m2\<lparr>groupManager := g,
                          effects := effects m2 @
                            (if onFailoverTriggeredSet m2
                             then [onFailoverTriggered failedEndpointName newEndpointName] else []) @
                            (if onHealthCheckCompleteSet m2 then [onHealthCheckComplete] else [])\<rparr>))))"

section \<open>notification.go\<close>

text \<open>
  \<^verbatim>\<open>Manager.ManualActivateGroup\<close>: the group manager's error is returned as it is, before
  anything else is done.
\<close>

definition ManualActivateGroup ::
  "'g GroupManager \<Rightarrow> 'g Manager \<Rightarrow> string \<Rightarrow> string option \<times> 'g Manager" where
  "ManualActivateGroup gm m groupName =
     (case gmManualActivateGroup gm (groupManager m) groupName of
        (Some err, g) \<Rightarrow> (Some err, m\<lparr>groupManager := g\<rparr>)
      | (None, g) \<Rightarrow>
          (let m1 = ClearEndpointCooldown (m\<lparr>groupManager := g\<rparr>) groupName
           in (None, m1\<lparr>effects := effects m1 @
                         [notifyWebGroupChange ''group_manually_activated'' groupName]\<rparr>)))"

section \<open>endpoint\_crud.go\<close>

definition newEndpoint :: "time \<Rightarrow> EndpointConfig \<Rightarrow> Endpoint" where
  \<comment> \<open>the struct literal of \<^verbatim>\<open>SyncEndpoints\<close> and \<^verbatim>\<open>AddEndpoint\<close>; unnamed fields are zero\<close>
  "newEndpoint now cfg =
     \<lparr>Config = cfg,
      Status = \<lparr>Healthy = False, LastCheck = now, NeverChecked = True, ResponseTime = 0,
                ConsecutiveFails = 0, CooldownUntil = 0, CooldownReason = ''''\<rparr>\<rparr>"

definition tokenCount :: "EndpointConfig \<Rightarrow> nat" where
  "tokenCount cfg =
     (if length (Tokens cfg) = 0 \<and> Token cfg \<noteq> '''' then 1 else length (Tokens cfg))"

definition apiKeyCount :: "EndpointConfig \<Rightarrow> nat" where
  "apiKeyCount cfg =
     (if length (ApiKeys cfg) = 0 \<and> ApiKey cfg \<noteq> '''' then 1 else length (ApiKeys cfg))"

text \<open>
  \<^verbatim>\<open>SyncEndpoints\<close> reads the clock once for each config; \<open>clock i\<close> is the reading of
  iteration \<open>i\<close>. No check of the names is made.
\<close>

definition SyncEndpoints ::
  "'g GroupManager \<Rightarrow> 'g Manager \<Rightarrow> (nat \<Rightarrow> time) \<Rightarrow> EndpointConfig list \<Rightarrow> 'g Manager" where
  "SyncEndpoints gm m clock configs =
     (let eps = map (\<lambda>(i, cfg). newEndpoint (clock i) cfg) (enumerate 0 configs)
      in m\<lparr>endpoints := eps,
           groupManager := UpdateGroups gm (groupManager m) eps,
           effects := effects m @
             map (\<lambda>cfg. InitEndpoint (Name cfg) (tokenCount cfg) (apiKeyCount cfg)) configs\<rparr>)"

text \<open>
  \<^verbatim>\<open>AddEndpoint\<close> takes the lock of the list three times: it looks for the name under
  a read lock, appends under the write lock, and copies the snapshot for
  \<^verbatim>\<open>UpdateGroups\<close> under a read lock again. Between two of these sections other
  goroutines may write to the manager, and the name is not looked for a second time.
  \<open>others\<close> is what they do between the check and the append, \<open>others'\<close> what they do
  between the append and the snapshot; for a call that runs alone both are the
  identity.
\<close>

definition AddEndpoint ::
  "'g GroupManager \<Rightarrow> 'g Manager \<Rightarrow> ('g Manager \<Rightarrow> 'g Manager) \<Rightarrow> ('g Manager \<Rightarrow> 'g Manager) \<Rightarrow>
     time \<Rightarrow> EndpointConfig \<Rightarrow> ManagerError option \<times> 'g Manager" where
  "AddEndpoint gm m others others' now cfg =
     (if list_ex (\<lambda>ep. Name (Config ep) = Name cfg) (endpoints m) then
        (Some (EndpointExists (Name cfg)), m)
      else
        (let m1 = others m;
             m2 = m1\<lparr>endpoints := endpoints m1 @ [newEndpoint now cfg],
                     effects := effects m1 @
                       [InitEndpoint (Name cfg) (tokenCount cfg) (apiKeyCount cfg)]\<rparr>;
             m3 = others' m2;
             snapshot = endpoints m3
         in (None,
             m3\<lparr>groupManager := UpdateGroups gm (groupManager m3) snapshot,
                effects := effects m3 @ [checkEndpointHealth (Name cfg)] @
                  (if eventBus m3 then [Publish ''endpoint_added'' (Name cfg)] else [])\<rparr>)))"

text \<open>
  \<^verbatim>\<open>RemoveEndpoint\<close> holds the write lock from its search to the end; it hands the new
  snapshot to \<^verbatim>\<open>UpdateGroups\<close> in a goroutine, which the model applies at once.
  \<^verbatim>\<open>UpdateEndpointConfig\<close> writes the config of the endpoint it found, with the name it
  searched for, so its write leaves every name as it is wherever it falls.
\<close>

fun removeFirst :: "string \<Rightarrow> Endpoint list \<Rightarrow> Endpoint list" where
  \<comment> \<open>\<^verbatim>\<open>append(m.endpoints[:index], m.endpoints[index+1:]...)\<close> at the first index with that name\<close>
  "removeFirst name [] = []"
| "removeFirst name (ep # eps) =
     (if Name (Config ep) = name then eps else ep # removeFirst name eps)"

definition RemoveEndpoint ::
  "'g GroupManager \<Rightarrow> 'g Manager \<Rightarrow> string \<Rightarrow> ManagerError option \<times> 'g Manager" where
  "RemoveEndpoint gm m name =
     (if \<not> list_ex (\<lambda>ep. Name (Config ep) = name) (endpoints m) then
        (Some (EndpointNotFound name), m)
      else
        (let eps = removeFirst name (endpoints m)
         in (None,
             m\<lparr>endpoints := eps,
               groupManager := UpdateGroups gm (groupManager m) eps,
               effects := effects m @ [KeyRemoveEndpoint name] @
                 (if eventBus m then [Publish ''endpoint_removed'' name] else [])\<rparr>)))"

definition UpdateEndpointConfig ::
  "'g GroupManager \<Rightarrow> 'g Manager \<Rightarrow> string \<Rightarrow> EndpointConfig \<Rightarrow>
     ManagerError option \<times> 'g Manager" where
  "UpdateEndpointConfig gm m name cfg0 =
     (case find (\<lambda>ep. Name (Config ep) = name) (endpoints m) of
        None \<Rightarrow> (Some (EndpointNotFound name), m)
      | Some targetEndpoint \<Rightarrow>
          (let cfg = cfg0\<lparr>Name := name\<rparr>;
               eps = modifyEndpoint name (\<lambda>ep. ep\<lparr>Config := cfg\<rparr>) (endpoints m)
           in (None,
               m\<lparr>endpoints := eps,
                 groupManager := UpdateGroups gm (groupManager m) eps,
                 effects := effects m @
                   [UpdateEndpointKeyCount name (tokenCount cfg) (apiKeyCount cfg),
                    checkEndpointHealth name] @
                   (if eventBus m then [Publish ''endpoint_updated'' name] else [])\<rparr>)))"

text \<open>The invariant of the registry: no two endpoints of the list have the same name.\<close>

definition uniqueNames :: "Endpoint list \<Rightarrow> bool" where
  "uniqueNames eps = distinct (map (\<lambda>ep. Name (Config ep)) eps)"

text \<open>
  The two cooldown fields are written together: \<^verbatim>\<open>TriggerRequestFailover\<close> sets both,
  \<^verbatim>\<open>ClearEndpointCooldown\<close> resets both and a new endpoint has both zero. An endpoint
  whose \<^verbatim>\<open>CooldownUntil\<close> is the zero time therefore carries no reason.
\<close>

definition cooldownConsistent :: "Endpoint \<Rightarrow> bool" where
  "cooldownConsistent ep =
     (IsZero (CooldownUntil (Status ep)) \<longrightarrow> CooldownReason (Status ep) = '''')"

section \<open>error\_recovery.go\<close>

text \<open>
  \<^verbatim>\<open>strings.ToLower\<close> as the library has it: a text whose bytes are all below
  \<^verbatim>\<open>utf8.RuneSelf\<close> (128) has its bytes \<open>A\<close>..\<open>Z\<close> moved to \<open>a\<close>..\<open>z\<close> and every other
  byte kept; any other text is mapped rune by rune through the Unicode tables, the
  parameter \<open>unicodeToLower\<close>.
\<close>

definition toLower :: "char \<Rightarrow> char" where
  "toLower c =
     (if 65 \<le> (of_char c :: nat) \<and> (of_char c :: nat) \<le> 90
      then char_of (of_char c + 32 :: nat) else c)"

definition isASCII :: "string \<Rightarrow> bool" where
  "isASCII s = list_all (\<lambda>c. (of_char c :: nat) < 128) s"

definition ToLower :: "('f, 'z) GoLibrary_scheme \<Rightarrow> string \<Rightarrow> string" where
  "ToLower lib s = (if isASCII s then map toLower s else unicodeToLower lib s)"

datatype ErrorType =
    ErrorTypeUnknown
  | ErrorTypeNetwork
  | ErrorTypeEOF
  | ErrorTypeConnectionTimeout
  | ErrorTypeResponseTimeout
  | ErrorTypeTimeout
  | ErrorTypeHTTP
  | ErrorTypeServerError
  | ErrorTypeStream
  | ErrorTypeAuth
  | ErrorTypeRateLimit
  | ErrorTypeParsing
  | ErrorTypeClientCancel
  | ErrorTypeNoHealthyEndpoints

datatype Errno = ECONNREFUSED | ECONNRESET | ENETUNREACH | EHOSTUNREACH | ETIMEDOUT | EOTHER

text \<open>
  A non-nil Go \<^verbatim>\<open>error\<close>, as far as the classifier looks at it: the message
  \<^verbatim>\<open>err.Error()\<close>, the answers of \<^verbatim>\<open>errors.Is\<close> for the five sentinel errors, and what
  \<^verbatim>\<open>errors.As\<close> finds in the chain (a \<^verbatim>\<open>*net.OpError\<close> with its \<^verbatim>\<open>Op\<close> and
  \<^verbatim>\<open>Timeout()\<close>, a \<^verbatim>\<open>*net.DNSError\<close>, a \<^verbatim>\<open>*syscall.Errno\<close>). The nil error is \<open>None\<close>.
\<close>

record GoError =
  Error :: string
  isContextCanceled :: bool
  isEOF :: bool
  isErrUnexpectedEOF :: bool
  isDeadlineExceeded :: bool
  isErrHandlerTimeout :: bool
  asOpError :: "(string \<times> bool) option"
  asDNSError :: bool
  asErrno :: "Errno option"

record ErrorContext =
  RequestID :: string
  EndpointName :: string
  GroupName :: string
  AttemptCount :: int
  ErrorType :: ErrorType
  OriginalError :: "GoError option"
  RetryableAfter :: duration
  MaxRetries :: int

text \<open>
  The usage tracker is outside the files modelled here; it is represented by the
  list of \<^verbatim>\<open>RecordRequestUpdate(requestID, opts)\<close> calls it has received, oldest first.
  A nil pointer field of \<^verbatim>\<open>tracking.UpdateOptions\<close> is \<open>None\<close>.
\<close>

record UpdateOptions =
  optEndpointName :: "string option"
  optGroupName :: "string option"
  optStatus :: "string option"
  optRetryCount :: "int option"
  optHttpStatus :: "int option"

type_synonym UsageTracker = "(string \<times> UpdateOptions) list"

text \<open>
  \<^verbatim>\<open>backoffFactor\<close> is a \<^verbatim>\<open>float64\<close>, a value of the type \<open>'f\<close> of the library
  parameters. The literals \<^verbatim>\<open>2.0\<close> and \<^verbatim>\<open>1.0\<close> are \<open>float64Of lib 2\<close> and
  \<open>float64Of lib 1\<close> (the conversion of a small integer is exact).
  \<^verbatim>\<open>calculateBackoffDelay\<close> multiplies \<^verbatim>\<open>1.0\<close> by the factor \<^verbatim>\<open>attempt\<close> times in its
  loop, multiplies \<^verbatim>\<open>float64(baseDelay)\<close> by the result and converts the product to a
  \<^verbatim>\<open>time.Duration\<close>, each with the library's own operation.
\<close>

record 'f ErrorRecoveryManager =
  usageTracker :: "UsageTracker option"
  maxRetries :: int
  baseDelay :: duration
  maxDelay :: duration
  backoffFactor :: 'f

definition NewErrorRecoveryManager ::
  "('f, 'z) GoLibrary_scheme \<Rightarrow> UsageTracker option \<Rightarrow> 'f ErrorRecoveryManager" where
  "NewErrorRecoveryManager lib tracker =
     \<lparr>usageTracker = tracker, maxRetries = 3, baseDelay = Second,
      maxDelay = 30 * Second, backoffFactor = float64Of lib 2\<rparr>"

definition SetRetryPolicy ::
  "'f ErrorRecoveryManager \<Rightarrow> int \<Rightarrow> duration \<Rightarrow> duration \<Rightarrow> 'f \<Rightarrow> 'f ErrorRecoveryManager" where
  "SetRetryPolicy erm maxRetries' baseDelay' maxDelay' backoffFactor' =
     erm\<lparr>maxRetries := maxRetries', baseDelay := baseDelay', maxDelay := maxDelay',
         backoffFactor := backoffFactor'\<rparr>"

definition calculateBackoffDelay ::
  "('f, 'z) GoLibrary_scheme \<Rightarrow> 'f ErrorRecoveryManager \<Rightarrow> int \<Rightarrow> duration" where
  "calculateBackoffDelay lib erm attempt =
     (if attempt \<le> 0 then baseDelay erm
      else
        (let result = ((\<lambda>result. float64Mul lib result (backoffFactor erm)) ^^ nat attempt)
                        (float64Of lib 1);
             delay = durationOf lib (float64Mul lib (float64Of lib (baseDelay erm)) result)
         in if delay > maxDelay erm then maxDelay erm else delay))"

definition isNetworkError :: "('f, 'z) GoLibrary_scheme \<Rightarrow> GoError \<Rightarrow> bool" where
  "isNetworkError lib err =
     (case asOpError err of
        Some (opName, timeout) \<Rightarrow> \<not> timeout
      | None \<Rightarrow>
          if asDNSError err then True
          else if asErrno err = Some ECONNREFUSED \<or> asErrno err = Some ECONNRESET \<or>
                  asErrno err = Some ENETUNREACH \<or> asErrno err = Some EHOSTUNREACH then True
          else list_ex (\<lambda>netErr. Contains (ToLower lib (Error err)) netErr)
                 [''connection reset'', ''connection refused'', ''connection closed'',
                  ''network is unreachable'', ''no route to host'', ''broken pipe'',
                  ''upstream connect'', ''connect error'',
                  ''stream reset''])"

definition isEOFError :: "('f, 'z) GoLibrary_scheme \<Rightarrow> GoError \<Rightarrow> bool" where
  "isEOFError lib err =
     (if isEOF err \<or> isErrUnexpectedEOF err then True
      else list_ex (\<lambda>eofErr. Contains (ToLower lib (Error err)) eofErr)
             [''eof'', ''unexpected eof''])"

definition isConnectionTimeoutError :: "('f, 'z) GoLibrary_scheme \<Rightarrow> GoError \<Rightarrow> bool" where
  "isConnectionTimeoutError lib err =
     (if list_ex (\<lambda>ctErr. Contains (ToLower lib (Error err)) ctErr)
           [''dial timeout'', ''dial tcp'', ''connection timed out'',
            ''connect timeout'', ''dial i/o timeout''] then True
      else (case asOpError err of
              Some (opName, timeout) \<Rightarrow> opName = ''dial'' \<and> timeout
            | None \<Rightarrow> False))"

definition isTimeoutError :: "('f, 'z) GoLibrary_scheme \<Rightarrow> GoError \<Rightarrow> bool" where
  "isTimeoutError lib err =
     (if isDeadlineExceeded err then True
      else if isErrHandlerTimeout err then True
      else if asErrno err = Some ETIMEDOUT then True
      else list_ex (\<lambda>timeoutErr. Contains (ToLower lib (Error err)) timeoutErr)
             [''timeout'', ''deadline exceeded'', ''context deadline exceeded'',
              ''i/o timeout'', ''read timeout'', ''write timeout'', ''operation timed out''])"

definition isClientCancelError :: "('f, 'z) GoLibrary_scheme \<Rightarrow> GoError \<Rightarrow> bool" where
  "isClientCancelError lib err =
     (if isContextCanceled err then True
      else list_ex (\<lambda>cancelErr. Contains (ToLower lib (Error err)) cancelErr)
             [''context canceled'', ''canceled'', ''client disconnected'',
              ''connection closed by client'', ''client gone away''])"

text \<open>The five conditions of the string-matching part of \<^verbatim>\<open>ClassifyError\<close>, in its order.\<close>

definition rateLimitText :: "string \<Rightarrow> bool" where
  "rateLimitText errStr =
     (Contains errStr ''rate'' \<or> Contains errStr ''429'' \<or>
      Contains errStr ''quota'' \<or> Contains errStr ''limit'' \<or>
      Contains errStr ''endpoint returned error: 429'' \<or>
      Contains errStr ''endpoint returned error: 400'' \<or>
      Contains errStr ''400'' \<or>
      Contains errStr ''too many requests'' \<or> Contains errStr ''rate_limit'' \<or>
      Contains errStr ''throttle'' \<or> Contains errStr ''quota exceeded'')"

definition serverErrorText :: "string \<Rightarrow> bool" where
  "serverErrorText errStr =
     (Contains errStr ''endpoint returned error: 5'' \<or>
      Contains errStr ''500'' \<or> Contains errStr ''501'' \<or>
      Contains errStr ''502'' \<or> Contains errStr ''503'' \<or>
      Contains errStr ''504'' \<or> Contains errStr ''505'' \<or>
      Contains errStr ''520'' \<or> Contains errStr ''521'' \<or>
      Contains errStr ''522'' \<or> Contains errStr ''523'' \<or>
      Contains errStr ''524'' \<or> Contains errStr ''525'')"

definition authText :: "string \<Rightarrow> bool" where
  "authText errStr =
     (Contains errStr ''auth'' \<or> Contains errStr ''unauthorized'' \<or> Contains errStr ''401'')"

definition streamText :: "string \<Rightarrow> bool" where
  "streamText errStr =
     (HasPrefix errStr ''stream_status:'' \<or>
      Contains errStr ''streaming not supported'' \<or>
      Contains errStr ''stream_error'' \<or>
      Contains errStr ''sse'' \<or>
      Contains errStr ''event-stream'' \<or>
      Contains errStr ''stream parsing'')"

definition httpText :: "string \<Rightarrow> bool" where
  "httpText errStr =
     ((Contains errStr ''http'' \<or> Contains errStr ''status'' \<or>
       Contains errStr ''endpoint returned error'') \<and>
      \<not> Contains errStr ''endpoint returned error: 5'' \<and>
      \<not> Contains errStr ''429'' \<and> \<not> Contains errStr ''rate'' \<and>
      \<not> Contains errStr ''400'' \<and> \<not> Contains errStr ''endpoint returned error: 400'')"

definition ClassifyError ::
  "('f, 'z) GoLibrary_scheme \<Rightarrow> 'f ErrorRecoveryManager \<Rightarrow> GoError option \<Rightarrow>
     string \<Rightarrow> string \<Rightarrow> string \<Rightarrow> int \<Rightarrow> ErrorContext" where
  "ClassifyError lib erm err requestID endpoint grp attempt =
     (let errorCtx = \<lparr>RequestID = requestID, EndpointName = endpoint, GroupName = grp,
                      AttemptCount = attempt, ErrorType = ErrorTypeUnknown,
                      OriginalError = err, RetryableAfter = 0, MaxRetries = maxRetries erm\<rparr>
      in case err of
           None \<Rightarrow> errorCtx\<lparr>ErrorType := ErrorTypeUnknown\<rparr>
         | Some e \<Rightarrow>
            (let errStr = ToLower lib (Error e)
             in if isClientCancelError lib e then
                  errorCtx\<lparr>ErrorType := ErrorTypeClientCancel, RetryableAfter := 0\<rparr>
                else if isEOFError lib e then
                  errorCtx\<lparr>ErrorType := ErrorTypeEOF, RetryableAfter := 0\<rparr>
                else if isConnectionTimeoutError lib e then
                  errorCtx\<lparr>ErrorType := ErrorTypeConnectionTimeout,
                           RetryableAfter := calculateBackoffDelay lib erm attempt\<rparr>
                else if isTimeoutError lib e then
                  errorCtx\<lparr>ErrorType := ErrorTypeResponseTimeout, RetryableAfter := 0\<rparr>
                else if isNetworkError lib e then
                  errorCtx\<lparr>ErrorType := ErrorTypeNetwork,
                           RetryableAfter := calculateBackoffDelay lib erm attempt\<rparr>
                else if rateLimitText errStr then
                  errorCtx\<lparr>ErrorType := ErrorTypeRateLimit, RetryableAfter := Minute\<rparr>
                else if serverErrorText errStr then
                  errorCtx\<lparr>ErrorType := ErrorTypeServerError,
                           RetryableAfter := calculateBackoffDelay lib erm attempt\<rparr>
                else if authText errStr then
                  errorCtx\<lparr>ErrorType := ErrorTypeAuth, RetryableAfter := 0\<rparr>
                else if streamText errStr then
                  (if Contains errStr ''streaming not supported'' then
                     errorCtx\<lparr>ErrorType := ErrorTypeUnknown, RetryableAfter := 0\<rparr>
                   else
                     errorCtx\<lparr>ErrorType := ErrorTypeStream,
                              RetryableAfter := calculateBackoffDelay lib erm attempt\<rparr>)
                else if httpText errStr then
                  errorCtx\<lparr>ErrorType := ErrorTypeHTTP\<rparr>
                else if Contains errStr ''no healthy endpoints available'' then
                  errorCtx\<lparr>ErrorType := ErrorTypeNoHealthyEndpoints, RetryableAfter := 0\<rparr>
                else
                  errorCtx\<lparr>ErrorType := ErrorTypeUnknown,
                           RetryableAfter := calculateBackoffDelay lib erm attempt\<rparr>))"

text \<open>
  \<^verbatim>\<open>ShouldRetry\<close>: the guard on the attempt count, then the switch on the kind.
  \<^verbatim>\<open>ErrorTypeNoHealthyEndpoints\<close> and \<^verbatim>\<open>ErrorTypeUnknown\<close> have no case of their own and
  take the \<^verbatim>\<open>default\<close> branch.
\<close>

definition ShouldRetry :: "ErrorContext \<Rightarrow> bool" where
  "ShouldRetry errorCtx =
     (if AttemptCount errorCtx \<ge> MaxRetries errorCtx then False
      else (case ErrorType errorCtx of
              ErrorTypeClientCancel \<Rightarrow> False
            | ErrorTypeEOF \<Rightarrow> False
            | ErrorTypeResponseTimeout \<Rightarrow> False
            | ErrorTypeTimeout \<Rightarrow> False
            | ErrorTypeConnectionTimeout \<Rightarrow> True
            | ErrorTypeNetwork \<Rightarrow> True
            | ErrorTypeServerError \<Rightarrow> True
            | ErrorTypeStream \<Rightarrow> False
            | ErrorTypeHTTP \<Rightarrow> False
            | ErrorTypeRateLimit \<Rightarrow> True
            | ErrorTypeAuth \<Rightarrow> False
            | ErrorTypeParsing \<Rightarrow> True
            | _ \<Rightarrow> False))"

text \<open>
  \<^verbatim>\<open>HandleFinalFailure\<close>: \<open>finalStatus\<close> is the local variable \<^verbatim>\<open>status\<close> after the
  switch. The update is sent only when a tracker is attached and the request id is
  not empty; \<^verbatim>\<open>intPtr(0)\<close> is \<open>Some 0\<close>.
\<close>

definition finalStatus :: "ErrorType \<Rightarrow> string" where
  "finalStatus t =
     (case t of
        ErrorTypeClientCancel \<Rightarrow> ''cancelled''
      | ErrorTypeTimeout \<Rightarrow> ''timeout''
      | ErrorTypeResponseTimeout \<Rightarrow> ''timeout''
      | ErrorTypeConnectionTimeout \<Rightarrow> ''connection_timeout''
      | ErrorTypeEOF \<Rightarrow> ''eof_interrupted''
      | ErrorTypeAuth \<Rightarrow> ''auth_error''
      | ErrorTypeRateLimit \<Rightarrow> ''rate_limited''
      | ErrorTypeServerError \<Rightarrow> ''server_error''
      | ErrorTypeStream \<Rightarrow> ''stream_error''
      | _ \<Rightarrow> ''error'')"

definition HandleFinalFailure ::
  "'f ErrorRecoveryManager \<Rightarrow> ErrorContext \<Rightarrow> 'f ErrorRecoveryManager" where
  "HandleFinalFailure erm errorCtx =
     (case usageTracker erm of
        None \<Rightarrow> erm
      | Some tracker \<Rightarrow>
          if RequestID errorCtx \<noteq> '''' then
            (let status = finalStatus (ErrorType errorCtx);
                 opts = \<lparr>optEndpointName = Some (EndpointName errorCtx),
                         optGroupName = Some (GroupName errorCtx),
                         optStatus = Some status,
                         optRetryCount = Some (AttemptCount errorCtx),
                         optHttpStatus = Some 0\<rparr>
             in erm\<lparr>usageTracker := Some (tracker @ [(RequestID errorCtx, opts)])\<rparr>)
          else erm)"

section \<open>Upstream status messages\<close>

text \<open>
  An error made by \<^verbatim>\<open>errors.New\<close> or by \<^verbatim>\<open>fmt.Errorf\<close> without \<^verbatim>\<open>%w\<close>: it is none of
  the sentinel errors and wraps no network or system-call error.
\<close>

definition plainError :: "GoError \<Rightarrow> bool" where
  "plainError e =
     (\<not> isContextCanceled e \<and> \<not> isEOF e \<and> \<not> isErrUnexpectedEOF e \<and>
      \<not> isDeadlineExceeded e \<and> \<not> isErrHandlerTimeout e \<and>
      asOpError e = None \<and> \<not> asDNSError e \<and> asErrno e = None)"

text \<open>
  The message for an upstream status \<open>4xy\<close>, in the form that the patterns
  \<^verbatim>\<open>endpoint returned error: 429\<close>, \<^verbatim>\<open>endpoint returned error: 400\<close> and
  \<^verbatim>\<open>endpoint returned error: 5\<close> of \<^verbatim>\<open>ClassifyError\<close> look for: the words, then the
  three digits of the status.
\<close>

definition isDigit :: "char \<Rightarrow> bool" where
  "isDigit c = (c \<in> set ''0123456789'')"

definition upstream4 :: string where
  "upstream4 = ''endpoint returned error: 4''"

definition status4xx :: "char \<Rightarrow> char \<Rightarrow> string" where
  "status4xx x y = upstream4 @ [x, y]"

definition digitFree :: "string \<Rightarrow> bool" where
  \<comment> \<open>a non-empty pattern without a digit, as most patterns of the classifier are\<close>
  "digitFree p = (p \<noteq> [] \<and> list_all (\<lambda>c. \<not> isDigit c) p)"

section \<open>Sample data\<close>

text \<open>Concrete endpoints, managers and errors at which the theorems below are instantiated.\<close>

text \<open>
  A value of the library parameters for the instances. These are ASCII texts and
  lists of at most 12 endpoints, and no instance looks at a delay, so nothing of
  it is used but its type.
\<close>

definition sampleLib :: "rat GoLibrary" where
  "sampleLib =
     \<lparr>unicodeToLower = (\<lambda>s. s), float64Of = of_int, float64Mul = (*),
      durationOf = (\<lambda>r. if r \<ge> 0 then \<lfloor>r\<rfloor> else \<lceil>r\<rceil>),
      pdqsort = insertionSort\<rparr>"

definition mkEndpoint :: "string \<Rightarrow> int \<Rightarrow> bool option \<Rightarrow> bool \<Rightarrow> time \<Rightarrow> Endpoint" where
  "mkEndpoint n p fo h cu =
     \<lparr>Config = \<lparr>Name = n, URL = '''', Group = n, Priority = p, Tokens = [], ApiKeys = [],
                Token = '''', ApiKey = '''', FailoverEnabled = fo, Cooldown = None\<rparr>,
      Status = \<lparr>Healthy = h, LastCheck = 0, NeverChecked = False, ResponseTime = 0,
                ConsecutiveFails = 0, CooldownUntil = cu, CooldownReason = ''''\<rparr>\<rparr>"

definition coolingEndpoint :: Endpoint where
  \<comment> \<open>endpoint \<open>a\<close>, cooling until time 500 for the reason given\<close>
  "coolingEndpoint =
     (mkEndpoint ''a'' 1 None True 500)
       \<lparr>Status := (Status (mkEndpoint ''a'' 1 None True 500))
                    \<lparr>CooldownReason := ''connection refused''\<rparr>\<rparr>"

definition mkManager :: "string \<Rightarrow> Endpoint list \<Rightarrow> string list Manager" where
  "mkManager strategy eps =
     \<lparr>endpoints = eps,
      config = \<lparr>Strategy = \<lparr>Type = strategy, FastTestEnabled = False\<rparr>,
                Failover = \<lparr>Enabled = True, DefaultCooldown = 0\<rparr>\<rparr>,
      groupManager = [], eventBus = False, onFailoverTriggeredSet = False,
      onHealthCheckCompleteSet = False, effects = []\<rparr>"

text \<open>
  A small group manager for the instances: its state is the list of active names,
  an endpoint is active when its name is in the list, activation replaces the list and
  fails on the empty name.
\<close>

definition sampleGroups :: "string list GroupManager" where
  "sampleGroups =
     \<lparr>FilterEndpointsByActiveGroups = (\<lambda>g eps. filter (\<lambda>ep. Name (Config ep) \<in> set g) eps),
      UpdateGroups = (\<lambda>g eps. g),
      gmManualActivateGroup = (\<lambda>g n. if n = '''' then (Some ''no such group'', g) else (None, [n])),
      DeactivateGroup = (\<lambda>g n. (None, removeAll n g))\<rparr>"

definition mkContext :: "ErrorType \<Rightarrow> int \<Rightarrow> int \<Rightarrow> ErrorContext" where
  "mkContext k attempt cap =
     \<lparr>RequestID = ''req-1'', EndpointName = ''a'', GroupName = ''a'', AttemptCount = attempt,
      ErrorType = k, OriginalError = None, RetryableAfter = 0, MaxRetries = cap\<rparr>"

definition mkError :: "string \<Rightarrow> GoError" where
  "mkError s =
     \<lparr>Error = s, isContextCanceled = False, isEOF = False, isErrUnexpectedEOF = False,
      isDeadlineExceeded = False, isErrHandlerTimeout = False, asOpError = None,
      asDNSError = False, asErrno = None\<rparr>"

section \<open>Properties of sort.Slice\<close>

lemma set_insertLess: "set (insertLess f x ys) = insert x (set ys)"
  by (induction ys) auto

lemma mset_insertLess: "mset (insertLess f x ys) = add_mset x (mset ys)"
  by (induction ys) auto

lemma mset_fold_insertLess: "mset (fold (insertLess f) xs acc) = mset xs + mset acc"
  by (induction xs arbitrary: acc) (auto simp: mset_insertLess)

lemma mset_insertionSort: "mset (insertionSort f xs) = mset xs"
  by (simp add: insertionSort_def mset_fold_insertLess)

lemma mset_sort_Slice: "mset (sort_Slice pdq f xs) = mset xs"
  by (simp add: sort_Slice_def Let_def mset_insertionSort)

lemma set_sort_Slice: "set (sort_Slice pdq f xs) = set xs"
  using mset_sort_Slice [of pdq f xs] by (metis set_mset_mset)

text \<open>
  With a comparison of keys, the sorted part (held nearest element first) stays in
  descending order of the key when the inner loop has placed a new element.
\<close>

lemma descending_insertLess:
  fixes key :: "'a \<Rightarrow> 'k::linorder"
  assumes "sorted_wrt (\<lambda>a b. key b \<le> key a) ys"
  shows "sorted_wrt (\<lambda>a b. key b \<le> key a) (insertLess (\<lambda>a b. key a < key b) x ys)"
  using assms
proof (induction ys)
  case Nil
  then show ?case by simp
next
  case (Cons y ys)
  show ?case
  proof (cases "key x < key y")
    case True
    with Cons show ?thesis by (auto simp: set_insertLess)
  next
    case False
    with Cons show ?thesis by (auto intro: order_trans)
  qed
qed

lemma descending_fold_insertLess:
  fixes key :: "'a \<Rightarrow> 'k::linorder"
  shows "sorted_wrt (\<lambda>a b. key b \<le> key a) acc \<Longrightarrow>
    sorted_wrt (\<lambda>a b. key b \<le> key a) (fold (insertLess (\<lambda>a b. key a < key b)) xs acc)"
  by (induction xs arbitrary: acc) (auto simp: descending_insertLess)

lemma sorted_insertionSort:
  fixes key :: "'a \<Rightarrow> 'k::linorder"
  shows "sorted_wrt (\<lambda>a b. key a \<le> key b) (insertionSort (\<lambda>a b. key a < key b) xs)"
  using descending_fold_insertLess [of key "[]" xs]
  by (simp add: insertionSort_def sorted_wrt_rev)

text \<open>
  Whatever the parameter \<open>pdq\<close> is, the result is in ascending order of the key: a
  result of \<open>pdq\<close> is only taken when no element is less than an earlier one.
\<close>

lemma sorted_sort_Slice:
  fixes key :: "'a \<Rightarrow> 'k::linorder"
  shows "sorted_wrt (\<lambda>a b. key a \<le> key b) (sort_Slice pdq (\<lambda>a b. key a < key b) xs)"
  by (simp add: sort_Slice_def Let_def sorted_insertionSort not_less)

section \<open>Priority order of the selector\<close>

text \<open>
  Claim C3, as the code has it. Under strategy \<open>priority\<close> the list \<open>S\<close> returned by
  \<open>sortHealthyEndpoints\<close> holds the same endpoints as its input and \<open>i < j\<close> implies
  \<open>S[i].priority \<le> S[j].priority\<close>. The comparison reads the priority alone: nothing is
  said about the order of endpoints of equal priority.
\<close>

theorem sortHealthyEndpoints_priority:
  assumes "Type (Strategy (config m)) = ''priority''"
  shows "mset (sortHealthyEndpoints lib m healthy showLogs) = mset healthy \<and>
         (\<forall>i j. i < j \<and> j < length (sortHealthyEndpoints lib m healthy showLogs) \<longrightarrow>
            Priority (Config (sortHealthyEndpoints lib m healthy showLogs ! i))
              \<le> Priority (Config (sortHealthyEndpoints lib m healthy showLogs ! j)))"
proof -
  let ?S = "sort_Slice (pdqsort lib) (\<lambda>a b. Priority (Config a) < Priority (Config b)) healthy"
  have S: "sortHealthyEndpoints lib m healthy showLogs = ?S"
    using assms by (simp add: sortHealthyEndpoints_def)
  have "sorted_wrt (\<lambda>a b. Priority (Config a) \<le> Priority (Config b)) ?S"
    by (rule sorted_sort_Slice [of "\<lambda>a. Priority (Config a)"])
  then have "\<forall>i j. i < j \<and> j < length ?S \<longrightarrow>
      Priority (Config (?S ! i)) \<le> Priority (Config (?S ! j))"
    by (simp add: sorted_wrt_iff_nth_less)
  with S show ?thesis by (simp add: mset_sort_Slice)
qed

theorem sortHealthyEndpoints_priority_witness:
  "Type (Strategy (config (mkManager ''priority'' []))) = ''priority'' \<and>
   mset (sortHealthyEndpoints sampleLib (mkManager ''priority'' [])
           [mkEndpoint ''c'' 3 None True 0, mkEndpoint ''a'' 1 None True 0,
            mkEndpoint ''b'' 2 None True 0] True)
     = mset [mkEndpoint ''c'' 3 None True 0, mkEndpoint ''a'' 1 None True 0,
             mkEndpoint ''b'' 2 None True 0] \<and>
   Priority (Config (sortHealthyEndpoints sampleLib (mkManager ''priority'' [])
           [mkEndpoint ''c'' 3 None True 0, mkEndpoint ''a'' 1 None True 0,
            mkEndpoint ''b'' 2 None True 0] True ! 0))
     \<le> Priority (Config (sortHealthyEndpoints sampleLib (mkManager ''priority'' [])
           [mkEndpoint ''c'' 3 None True 0, mkEndpoint ''a'' 1 None True 0,
            mkEndpoint ''b'' 2 None True 0] True ! 2))"
proof -
  let ?m = "mkManager ''priority'' []"
  let ?xs = "[mkEndpoint ''c'' 3 None True 0, mkEndpoint ''a'' 1 None True 0,
              mkEndpoint ''b'' 2 None True 0]"
  have h: "Type (Strategy (config ?m)) = ''priority''"
    by (simp add: mkManager_def)
  have l: "length (sortHealthyEndpoints sampleLib ?m ?xs True) = 3"
    by (simp add: sortHealthyEndpoints_def mkManager_def sort_Slice_def insertionSort_def)
  from sortHealthyEndpoints_priority [OF h, of sampleLib ?xs True] l h show ?thesis
    by simp
qed

text \<open>
  Two healthy endpoints of priority 1, \<open>b\<close> before \<open>a\<close>: they come back in that order,
  so equal priorities are not in ascending order of name.
\<close>

theorem sortHealthyEndpoints_name_order_counterexample:
  "sortHealthyEndpoints sampleLib (mkManager ''priority'' [])
     [mkEndpoint ''b'' 1 None True 0, mkEndpoint ''a'' 1 None True 0] True
     = [mkEndpoint ''b'' 1 None True 0, mkEndpoint ''a'' 1 None True 0] \<and>
   Priority (Config (mkEndpoint ''b'' 1 None True 0))
     = Priority (Config (mkEndpoint ''a'' 1 None True 0)) \<and>
   \<not> Name (Config (mkEndpoint ''b'' 1 None True 0))
       \<le> Name (Config (mkEndpoint ''a'' 1 None True 0))"
  by (simp add: sortHealthyEndpoints_def mkManager_def sort_Slice_def insertionSort_def
      mkEndpoint_def)

section \<open>Failover candidates\<close>

lemma failoverEnabled_iff: "failoverEnabled ep \<longleftrightarrow> FailoverEnabled (Config ep) \<noteq> Some False"
  by (auto simp: failoverEnabled_def split: option.splits)

lemma getFailoverEndpoints_iff:
  "e \<in> set (getFailoverEndpoints now activeEndpoints snapshot) \<longleftrightarrow>
     e \<in> set snapshot \<and>
     Name (Config e) \<notin> (\<lambda>ep. Name (Config ep)) ` set activeEndpoints \<and>
     failoverEnabled e \<and> \<not> inCooldown now e \<and> Healthy (Status e)"
  by (auto simp: getFailoverEndpoints_def Let_def)

lemma failoverScan_Some:
  "failoverScan now x eps = Some ep \<Longrightarrow>
     ep \<in> set eps \<and> Name (Config ep) \<noteq> x \<and> failoverEnabled ep \<and>
     \<not> inCooldown now ep \<and> Healthy (Status ep)"
  by (induction eps) (auto split: if_splits)

lemma uniqueNames_same_name:
  "uniqueNames eps \<Longrightarrow> a \<in> set eps \<Longrightarrow> b \<in> set eps \<Longrightarrow>
     Name (Config a) = Name (Config b) \<Longrightarrow> a = b"
  by (auto simp: uniqueNames_def distinct_map dest: inj_onD)

text \<open>
  Claim C4. Let \<open>e\<close> be an endpoint whose \<open>failoverEnabled\<close> flag is set and false. For
  every snapshot, \<open>e\<close> is not in the list \<open>getFailoverEndpoints\<close> returns, and \<open>e\<close> is not
  the endpoint at which the loop of \<open>selectNextFailoverEndpoint\<close> returns. That
  function hands back a name: when the registry's names are unique and \<open>e\<close> is in the
  registry, a non-empty result is never the name of \<open>e\<close>.
\<close>

theorem failover_disabled_never_candidate:
  assumes off: "FailoverEnabled (Config e) = Some False"
  shows "e \<notin> set (getFailoverEndpoints now activeEndpoints snapshot) \<and>
         failoverScan now' excludeEndpoint
           (sort_Slice (pdqsort lib)
              (\<lambda>a b. Priority (Config a) < Priority (Config b)) (endpoints m)) \<noteq> Some e \<and>
         (uniqueNames (endpoints m) \<and> e \<in> set (endpoints m) \<and>
          selectNextFailoverEndpoint lib m now' excludeEndpoint \<noteq> '''' \<longrightarrow>
            selectNextFailoverEndpoint lib m now' excludeEndpoint \<noteq> Name (Config e))"
proof (intro conjI impI)
  from off have ne: "\<not> failoverEnabled e" by (simp add: failoverEnabled_iff)
  then show "e \<notin> set (getFailoverEndpoints now activeEndpoints snapshot)"
    by (simp add: getFailoverEndpoints_iff)
  let ?snap = "sort_Slice (pdqsort lib)
                 (\<lambda>a b. Priority (Config a) < Priority (Config b)) (endpoints m)"
  from ne show "failoverScan now' excludeEndpoint ?snap \<noteq> Some e"
    using failoverScan_Some by blast
  assume a: "uniqueNames (endpoints m) \<and> e \<in> set (endpoints m) \<and>
          selectNextFailoverEndpoint lib m now' excludeEndpoint \<noteq> ''''"
  show "selectNextFailoverEndpoint lib m now' excludeEndpoint \<noteq> Name (Config e)"
  proof (cases "failoverScan now' excludeEndpoint ?snap")
    case None
    with a show ?thesis by (simp add: selectNextFailoverEndpoint_def)
  next
    case (Some ep)
    then have sel: "selectNextFailoverEndpoint lib m now' excludeEndpoint = Name (Config ep)"
      by (simp add: selectNextFailoverEndpoint_def)
    from failoverScan_Some [OF Some] have ep: "ep \<in> set (endpoints m)" "failoverEnabled ep"
      by (simp_all add: set_sort_Slice)
    show ?thesis
    proof
      assume "selectNextFailoverEndpoint lib m now' excludeEndpoint = Name (Config e)"
      with sel have "Name (Config ep) = Name (Config e)" by simp
      with a ep(1) have "ep = e" by (blast intro: uniqueNames_same_name)
      with ep(2) ne show False by simp
    qed
  qed
qed

theorem failover_disabled_never_candidate_witness:
  "FailoverEnabled (Config (mkEndpoint ''off'' 1 (Some False) True 0)) = Some False \<and>
   mkEndpoint ''off'' 1 (Some False) True 0
     \<notin> set (getFailoverEndpoints 100 []
              [mkEndpoint ''off'' 1 (Some False) True 0, mkEndpoint ''b'' 2 None True 0]) \<and>
   uniqueNames [mkEndpoint ''off'' 1 (Some False) True 0, mkEndpoint ''b'' 2 None True 0] \<and>
   selectNextFailoverEndpoint sampleLib
     (mkManager ''priority''
        [mkEndpoint ''off'' 1 (Some False) True 0, mkEndpoint ''b'' 2 None True 0]) 100 ''a''
     = ''b''"
proof -
  let ?off = "mkEndpoint ''off'' 1 (Some False) True 0"
  let ?b = "mkEndpoint ''b'' 2 None True 0"
  have h: "FailoverEnabled (Config ?off) = Some False"
    by (simp add: mkEndpoint_def)
  have sel: "selectNextFailoverEndpoint sampleLib (mkManager ''priority'' [?off, ?b]) 100 ''a'' = ''b''"
    by (simp add: selectNextFailoverEndpoint_def mkManager_def sort_Slice_def insertionSort_def
        mkEndpoint_def failoverEnabled_def inCooldown_def IsZero_def)
  have u: "uniqueNames [?off, ?b]"
    by (simp add: uniqueNames_def mkEndpoint_def)
  from failover_disabled_never_candidate [OF h, of 100 "[]" "[?off, ?b]" 100 "''a''"
      sampleLib "mkManager ''priority'' [?off, ?b]"] h sel u
  show ?thesis by simp
qed

section \<open>The cooldown predicate\<close>

lemma find_uniqueNames:
  "uniqueNames eps \<Longrightarrow> e \<in> set eps \<Longrightarrow>
     find (\<lambda>ep. Name (Config ep) = Name (Config e)) eps = Some e"
proof (induction eps)
  case Nil
  then show ?case by simp
next
  case (Cons a eps)
  then show ?case by (auto simp: uniqueNames_def)
qed

lemma inCooldown_iff:
  "inCooldown now ep \<longleftrightarrow> CooldownUntil (Status ep) \<noteq> 0 \<and> now < CooldownUntil (Status ep)"
  by (simp add: inCooldown_def IsZero_def Before_def)

lemma set_sortHealthyEndpoints: "set (sortHealthyEndpoints lib m xs b) = set xs"
  by (simp add: sortHealthyEndpoints_def set_sort_Slice)

text \<open>
  Claim C5. Let \<open>e\<close> be the endpoint a name resolves to (with unique names, any
  endpoint of the registry under its own name, by \<open>find_uniqueNames\<close>) and \<open>t\<close> a query
  time. The in-cooldown predicate reported for \<open>e\<close>, by \<open>IsEndpointInCooldown\<close> and by
  \<open>GetEndpointCooldownInfo\<close> alike, is true if and only if \<open>cooldownUntil\<close> is not the
  zero time and is later than \<open>t\<close>; for a clock reading \<open>t\<close>, which is never before the
  zero time, that is: if and only if \<open>cooldownUntil\<close> is later than \<open>t\<close>. The same
  condition decides \<open>GetHealthyEndpoints\<close>: an endpoint of the active groups is in the
  returned list exactly when it is healthy and that condition is false.
\<close>

theorem cooldown_predicate:
  assumes look: "GetEndpointByNameAny m name = Some e"
  shows "(IsEndpointInCooldown m t name \<longleftrightarrow>
            CooldownUntil (Status e) \<noteq> 0 \<and> CooldownUntil (Status e) > t) \<and>
         (0 \<le> t \<longrightarrow> (IsEndpointInCooldown m t name \<longleftrightarrow> CooldownUntil (Status e) > t)) \<and>
         (fst (GetEndpointCooldownInfo m t name) \<longleftrightarrow> IsEndpointInCooldown m t name) \<and>
         (\<forall>a \<in> set (FilterEndpointsByActiveGroups gm (groupManager m) (endpoints m)).
            a \<in> set (GetHealthyEndpoints lib gm m t t') \<longleftrightarrow>
              Healthy (Status a) \<and>
              \<not> (CooldownUntil (Status a) \<noteq> 0 \<and> CooldownUntil (Status a) > t))"
proof (intro conjI impI ballI)
  from look show 1: "IsEndpointInCooldown m t name \<longleftrightarrow>
            CooldownUntil (Status e) \<noteq> 0 \<and> CooldownUntil (Status e) > t"
    by (simp add: IsEndpointInCooldown_def inCooldown_iff)
  from look show "fst (GetEndpointCooldownInfo m t name) \<longleftrightarrow> IsEndpointInCooldown m t name"
    by (simp add: IsEndpointInCooldown_def GetEndpointCooldownInfo_def)
  { assume "0 \<le> t"
    with 1 show "IsEndpointInCooldown m t name \<longleftrightarrow> CooldownUntil (Status e) > t"
      by auto }
  fix a
  let ?active = "FilterEndpointsByActiveGroups gm (groupManager m) (endpoints m)"
  let ?healthy = "filter (\<lambda>endpoint. Healthy (Status endpoint) \<and> \<not> inCooldown t endpoint) ?active"
  assume a: "a \<in> set ?active"
  then have nofo: "a \<notin> set (getFailoverEndpoints t' ?active (endpoints m))"
    by (auto simp: getFailoverEndpoints_iff)
  show "a \<in> set (GetHealthyEndpoints lib gm m t t') \<longleftrightarrow>
              Healthy (Status a) \<and>
              \<not> (CooldownUntil (Status a) \<noteq> 0 \<and> CooldownUntil (Status a) > t)"
  proof (cases "?healthy = []")
    case True
    then have "a \<notin> set ?healthy" by simp
    with a have "\<not> (Healthy (Status a) \<and> \<not> inCooldown t a)" by simp
    moreover from True nofo have "a \<notin> set (GetHealthyEndpoints lib gm m t t')"
      by (simp add: GetHealthyEndpoints_def Let_def set_sortHealthyEndpoints)
    ultimately show ?thesis by (simp add: inCooldown_iff)
  next
    case False
    then have "set (GetHealthyEndpoints lib gm m t t') = set ?healthy"
      by (simp add: GetHealthyEndpoints_def Let_def set_sortHealthyEndpoints)
    with a show ?thesis by (auto simp: inCooldown_iff)
  qed
qed

theorem cooldown_predicate_witness:
  "GetEndpointByNameAny
     ((mkManager ''priority'' [mkEndpoint ''a'' 1 None True 500])\<lparr>groupManager := [''a'']\<rparr>) ''a''
     = Some (mkEndpoint ''a'' 1 None True 500) \<and>
   IsEndpointInCooldown
     ((mkManager ''priority'' [mkEndpoint ''a'' 1 None True 500])\<lparr>groupManager := [''a'']\<rparr>)
     100 ''a'' \<and>
   \<not> IsEndpointInCooldown
     ((mkManager ''priority'' [mkEndpoint ''a'' 1 None True 500])\<lparr>groupManager := [''a'']\<rparr>)
     500 ''a'' \<and>
   mkEndpoint ''a'' 1 None True 500 \<notin> set (GetHealthyEndpoints sampleLib sampleGroups
     ((mkManager ''priority'' [mkEndpoint ''a'' 1 None True 500])\<lparr>groupManager := [''a'']\<rparr>)
     100 100) \<and>
   mkEndpoint ''a'' 1 None True 500 \<in> set (GetHealthyEndpoints sampleLib sampleGroups
     ((mkManager ''priority'' [mkEndpoint ''a'' 1 None True 500])\<lparr>groupManager := [''a'']\<rparr>)
     500 500)"
proof -
  let ?a = "mkEndpoint ''a'' 1 None True 500"
  let ?m = "(mkManager ''priority'' [?a])\<lparr>groupManager := [''a'']\<rparr>"
  have h: "GetEndpointByNameAny ?m ''a'' = Some ?a"
    by (simp add: GetEndpointByNameAny_def mkManager_def mkEndpoint_def)
  have act: "?a \<in> set (FilterEndpointsByActiveGroups sampleGroups (groupManager ?m) (endpoints ?m))"
    by (simp add: sampleGroups_def mkManager_def mkEndpoint_def)
  have st: "Healthy (Status ?a)" "CooldownUntil (Status ?a) = 500"
    by (simp_all add: mkEndpoint_def)
  from cooldown_predicate [OF h, of 100 sampleGroups sampleLib 100] act st
  have "?a \<notin> set (GetHealthyEndpoints sampleLib sampleGroups ?m 100 100)" by simp
  moreover from cooldown_predicate [OF h, of 500 sampleGroups sampleLib 500] act st
  have "?a \<in> set (GetHealthyEndpoints sampleLib sampleGroups ?m 500 500)" by simp
  moreover from cooldown_predicate [OF h, of 100 sampleGroups sampleLib 100] st
  have "IsEndpointInCooldown ?m 100 ''a''" by simp
  moreover from cooldown_predicate [OF h, of 500 sampleGroups sampleLib 500] st
  have "\<not> IsEndpointInCooldown ?m 500 ''a''" by simp
  ultimately show ?thesis using h by simp
qed

section \<open>Uniqueness of endpoint names\<close>

lemma names_modifyEndpoint:
  "(\<And>ep. Name (Config (f ep)) = Name (Config ep)) \<Longrightarrow>
     map (\<lambda>ep. Name (Config ep)) (modifyEndpoint n f eps) = map (\<lambda>ep. Name (Config ep)) eps"
  by (induction eps) auto

lemma names_removeFirst:
  "map (\<lambda>ep. Name (Config ep)) (removeFirst n eps) = remove1 n (map (\<lambda>ep. Name (Config ep)) eps)"
  by (induction eps) auto

lemma find_modifyEndpoint:
  "(\<And>ep. Name (Config (f ep)) = Name (Config ep)) \<Longrightarrow>
     find (\<lambda>ep. Name (Config ep) = n) (modifyEndpoint n f eps)
       = map_option f (find (\<lambda>ep. Name (Config ep) = n) eps)"
  by (induction eps) auto

lemma list_ex_name:
  "list_ex (\<lambda>ep. Name (Config ep) = n) eps \<longleftrightarrow> n \<in> set (map (\<lambda>ep. Name (Config ep)) eps)"
  by (auto simp: list_ex_iff)

lemma uniqueNames_AddEndpoint:
  assumes "uniqueNames (endpoints m)"
    and "endpoints (others m) = endpoints m"
    and "\<And>x. endpoints (others' x) = endpoints x"
  shows "uniqueNames (endpoints (snd (AddEndpoint gm m others others' now cfg)))"
  using assms
  by (auto simp: AddEndpoint_def uniqueNames_def Let_def list_ex_iff newEndpoint_def)

lemma uniqueNames_RemoveEndpoint:
  "uniqueNames (endpoints m) \<Longrightarrow> uniqueNames (endpoints (snd (RemoveEndpoint gm m name)))"
  by (simp add: RemoveEndpoint_def uniqueNames_def Let_def names_removeFirst)

lemma uniqueNames_UpdateEndpointConfig:
  "uniqueNames (endpoints m) \<Longrightarrow>
     uniqueNames (endpoints (snd (UpdateEndpointConfig gm m name cfg)))"
proof (cases "find (\<lambda>ep. Name (Config ep) = name) (endpoints m)")
  case None
  assume "uniqueNames (endpoints m)"
  with None show ?thesis by (simp add: UpdateEndpointConfig_def)
next
  case (Some target)
  assume u: "uniqueNames (endpoints m)"
  have "map (\<lambda>ep. Name (Config ep))
          (modifyEndpoint name (\<lambda>ep. if Name (Config ep) = name then ep\<lparr>Config := cfg\<lparr>Name := name\<rparr>\<rparr> else ep) (endpoints m))
        = map (\<lambda>ep. Name (Config ep)) (endpoints m)"
    by (rule names_modifyEndpoint) simp
  moreover have "modifyEndpoint name (\<lambda>ep. if Name (Config ep) = name then ep\<lparr>Config := cfg\<lparr>Name := name\<rparr>\<rparr> else ep) eps
     = modifyEndpoint name (\<lambda>ep. ep\<lparr>Config := cfg\<lparr>Name := name\<rparr>\<rparr>) eps" for eps
    by (induction eps) auto
  ultimately show ?thesis using u Some
    by (simp add: UpdateEndpointConfig_def uniqueNames_def Let_def)
qed

lemma names_SyncEndpoints:
  "map (\<lambda>ep. Name (Config ep)) (endpoints (SyncEndpoints gm m clock configs)) = map Name configs"
proof -
  have "map (\<lambda>ep. Name (Config ep)) (map (\<lambda>(i, cfg). newEndpoint (clock i) cfg) (enumerate k cs))
          = map Name cs" for k cs
    by (induction cs arbitrary: k) (auto simp: newEndpoint_def)
  then show ?thesis by (simp add: SyncEndpoints_def Let_def)
qed

text \<open>
  Claim C6, as the code has it. \<open>AddEndpoint\<close> returns an error and leaves the manager
  unchanged when an endpoint with the same name exists at its check. A call of
  \<open>AddEndpoint\<close> during which no other goroutine writes the list, \<open>RemoveEndpoint\<close> and
  \<open>UpdateEndpointConfig\<close> preserve the invariant that no two endpoints of the list
  share a name. \<open>SyncEndpoints\<close> replaces the list by one endpoint for each given
  config, in order, without looking at the names: the new list has unique names
  exactly when the configs given have pairwise different names. (Nothing is said
  here of a call of \<open>AddEndpoint\<close> with a write to the list between its check and its
  append.)
\<close>

theorem registry_unique_names:
  "((\<exists>ep \<in> set (endpoints m). Name (Config ep) = Name cfg) \<longrightarrow>
      AddEndpoint gm m others others' now cfg = (Some (EndpointExists (Name cfg)), m)) \<and>
   (uniqueNames (endpoints m) \<longrightarrow>
      (endpoints (others m) = endpoints m \<and> (\<forall>x. endpoints (others' x) = endpoints x) \<longrightarrow>
         uniqueNames (endpoints (snd (AddEndpoint gm m others others' now cfg)))) \<and>
      uniqueNames (endpoints (snd (RemoveEndpoint gm m name))) \<and>
      uniqueNames (endpoints (snd (UpdateEndpointConfig gm m name cfg)))) \<and>
   (uniqueNames (endpoints (SyncEndpoints gm m clock configs)) \<longleftrightarrow> distinct (map Name configs))"
proof (intro conjI impI)
  assume "\<exists>ep \<in> set (endpoints m). Name (Config ep) = Name cfg"
  then show "AddEndpoint gm m others others' now cfg = (Some (EndpointExists (Name cfg)), m)"
    by (simp add: AddEndpoint_def list_ex_iff)
next
  show "uniqueNames (endpoints (SyncEndpoints gm m clock configs)) \<longleftrightarrow> distinct (map Name configs)"
    unfolding uniqueNames_def names_SyncEndpoints ..
next
  assume "uniqueNames (endpoints m)"
    and "endpoints (others m) = endpoints m \<and> (\<forall>x. endpoints (others' x) = endpoints x)"
  then show "uniqueNames (endpoints (snd (AddEndpoint gm m others others' now cfg)))"
    by (intro uniqueNames_AddEndpoint) simp_all
qed (simp_all add: uniqueNames_RemoveEndpoint uniqueNames_UpdateEndpointConfig)

theorem registry_unique_names_witness:
  "mkEndpoint ''a'' 1 None True 0 \<in> set (endpoints (mkManager ''priority'' [mkEndpoint ''a'' 1 None True 0])) \<and>
   AddEndpoint sampleGroups (mkManager ''priority'' [mkEndpoint ''a'' 1 None True 0])
       (\<lambda>x. x) (\<lambda>x. x) 7 (Config (mkEndpoint ''a'' 2 None True 0))
     = (Some (EndpointExists ''a''), mkManager ''priority'' [mkEndpoint ''a'' 1 None True 0]) \<and>
   uniqueNames (endpoints (mkManager ''priority'' [mkEndpoint ''a'' 1 None True 0])) \<and>
   uniqueNames (endpoints (snd (AddEndpoint sampleGroups
       (mkManager ''priority'' [mkEndpoint ''a'' 1 None True 0]) (\<lambda>x. x) (\<lambda>x. x) 7
       (Config (mkEndpoint ''b'' 2 None True 0))))) \<and>
   uniqueNames (endpoints (snd (RemoveEndpoint sampleGroups
       (mkManager ''priority'' [mkEndpoint ''a'' 1 None True 0]) ''a''))) \<and>
   uniqueNames (endpoints (snd (UpdateEndpointConfig sampleGroups
       (mkManager ''priority'' [mkEndpoint ''a'' 1 None True 0]) ''a''
       (Config (mkEndpoint ''b'' 2 None True 0))))) \<and>
   distinct (map Name [Config (mkEndpoint ''a'' 1 None True 0), Config (mkEndpoint ''b'' 2 None True 0)]) \<and>
   uniqueNames (endpoints (SyncEndpoints sampleGroups
       (mkManager ''priority'' [mkEndpoint ''a'' 1 None True 0]) (\<lambda>i. 7)
       [Config (mkEndpoint ''a'' 1 None True 0), Config (mkEndpoint ''b'' 2 None True 0)]))"
proof -
  let ?a = "mkEndpoint ''a'' 1 None True 0"
  let ?m = "mkManager ''priority'' [?a]"
  let ?ca = "Config (mkEndpoint ''a'' 2 None True 0)"
  let ?cb = "Config (mkEndpoint ''b'' 2 None True 0)"
  let ?id = "\<lambda>x :: string list Manager. x"
  have mem: "?a \<in> set (endpoints ?m)"
    by (simp add: mkManager_def)
  have ex: "\<exists>ep \<in> set (endpoints ?m). Name (Config ep) = Name ?ca"
    by (simp add: mkManager_def mkEndpoint_def)
  have nm: "Name ?ca = ''a''"
    by (simp add: mkEndpoint_def)
  have u: "uniqueNames (endpoints ?m)"
    by (simp add: uniqueNames_def mkManager_def)
  have d: "distinct (map Name [Config ?a, ?cb])"
    by (simp add: mkEndpoint_def)
  have alone: "endpoints (?id ?m) = endpoints ?m \<and> (\<forall>x. endpoints (?id x) = endpoints x)"
    by simp
  from registry_unique_names
         [of ?m ?ca sampleGroups ?id ?id 7 "''a''" "\<lambda>i. 7" "[Config ?a, ?cb]"] ex nm
  have 1: "AddEndpoint sampleGroups ?m ?id ?id 7 ?ca = (Some (EndpointExists ''a''), ?m)"
    by simp
  from registry_unique_names
         [of ?m ?cb sampleGroups ?id ?id 7 "''a''" "\<lambda>i. 7" "[Config ?a, ?cb]"] u d alone
  have 2: "uniqueNames (endpoints (snd (AddEndpoint sampleGroups ?m ?id ?id 7 ?cb)))"
    "uniqueNames (endpoints (snd (RemoveEndpoint sampleGroups ?m ''a'')))"
    "uniqueNames (endpoints (snd (UpdateEndpointConfig sampleGroups ?m ''a'' ?cb)))"
    "uniqueNames (endpoints (SyncEndpoints sampleGroups ?m (\<lambda>i. 7) [Config ?a, ?cb]))"
    by simp_all
  from mem 1 u 2 d show ?thesis by simp
qed

text \<open>
  From a registry with unique names (here the empty one), \<open>SyncEndpoints\<close> with the same
  config given twice yields a list with two endpoints of one name.
\<close>

theorem SyncEndpoints_duplicate_counterexample:
  "uniqueNames (endpoints (mkManager ''priority'' [])) \<and>
   \<not> uniqueNames (endpoints (SyncEndpoints sampleGroups (mkManager ''priority'' []) (\<lambda>i. 7)
        [Config (mkEndpoint ''a'' 1 None True 0), Config (mkEndpoint ''a'' 1 None True 0)]))"
  by (simp add: uniqueNames_def mkManager_def SyncEndpoints_def Let_def newEndpoint_def
      enumerate_eq_zip)

text \<open>
  The window of \<open>AddEndpoint\<close>: a first call finds the registry empty; before it
  appends, a second call adds an endpoint of the same name; the first call then
  appends its own without looking again, and the list has that name twice.
\<close>

lemma AddEndpoint_interleaved_duplicate:
  "uniqueNames (endpoints (mkManager ''priority'' [])) \<and>
   fst (AddEndpoint sampleGroups (mkManager ''priority'' [])
          (\<lambda>x. snd (AddEndpoint sampleGroups x (\<lambda>x. x) (\<lambda>x. x) 8
                       (Config (mkEndpoint ''a'' 2 None True 0))))
          (\<lambda>x. x) 7 (Config (mkEndpoint ''a'' 1 None True 0))) = None \<and>
   map (\<lambda>ep. Name (Config ep))
     (endpoints (snd (AddEndpoint sampleGroups (mkManager ''priority'' [])
          (\<lambda>x. snd (AddEndpoint sampleGroups x (\<lambda>x. x) (\<lambda>x. x) 8
                       (Config (mkEndpoint ''a'' 2 None True 0))))
          (\<lambda>x. x) 7 (Config (mkEndpoint ''a'' 1 None True 0)))))
     = [''a'', ''a''] \<and>
   \<not> uniqueNames
     (endpoints (snd (AddEndpoint sampleGroups (mkManager ''priority'' [])
          (\<lambda>x. snd (AddEndpoint sampleGroups x (\<lambda>x. x) (\<lambda>x. x) 8
                       (Config (mkEndpoint ''a'' 2 None True 0))))
          (\<lambda>x. x) 7 (Config (mkEndpoint ''a'' 1 None True 0)))))"
  by (simp add: AddEndpoint_def uniqueNames_def mkManager_def mkEndpoint_def newEndpoint_def
      sampleGroups_def Let_def)

section \<open>Cooldown on failover\<close>

lemma endpoints_TriggerRequestFailover:
  "GetEndpointByNameAny m n = Some e \<Longrightarrow>
     endpoints (snd (TriggerRequestFailover lib gm m now now' n reason))
       = modifyEndpoint n (\<lambda>ep. ep\<lparr>Status := (Status ep)\<lparr>CooldownUntil := Add now (cooldownDuration m e),
                                                     CooldownReason := reason\<rparr>\<rparr>) (endpoints m)"
  by (simp add: TriggerRequestFailover_def Let_def split: prod.splits option.splits)

text \<open>
  Claim C7. For an existing endpoint named \<open>n\<close>, after \<open>TriggerRequestFailover n reason\<close>
  at clock reading \<open>now\<close> (whatever the call goes on to return) that endpoint has
  \<open>cooldownUntil = now + d\<close> and \<open>cooldownReason = reason\<close> and its config is untouched,
  where \<open>d\<close> is the endpoint's own cooldown when that is set and positive, otherwise
  the manager's default failover cooldown when that is not zero, otherwise 10 minutes
  (600000000000 ns).
\<close>

theorem TriggerRequestFailover_sets_cooldown:
  assumes look: "GetEndpointByNameAny m n = Some e"
  shows "map_option (\<lambda>e'. (CooldownUntil (Status e'), CooldownReason (Status e'), Config e'))
           (GetEndpointByNameAny (snd (TriggerRequestFailover lib gm m now now' n reason)) n)
         = Some (now +
                  (if \<exists>c. Cooldown (Config e) = Some c \<and> 0 < c then the (Cooldown (Config e))
                   else if DefaultCooldown (Failover (config m)) \<noteq> 0
                        then DefaultCooldown (Failover (config m))
                   else 600000000000),
                 reason, Config e)"
proof -
  let ?f = "\<lambda>ep. ep\<lparr>Status := (Status ep)\<lparr>CooldownUntil := Add now (cooldownDuration m e),
                                          CooldownReason := reason\<rparr>\<rparr>"
  have d: "cooldownDuration m e =
      (if \<exists>c. Cooldown (Config e) = Some c \<and> 0 < c then the (Cooldown (Config e))
       else if DefaultCooldown (Failover (config m)) \<noteq> 0
            then DefaultCooldown (Failover (config m))
       else 600000000000)"
    by (auto simp: cooldownDuration_def Let_def Minute_def Second_def split: option.splits)
  have "GetEndpointByNameAny (snd (TriggerRequestFailover lib gm m now now' n reason)) n
          = map_option ?f (find (\<lambda>ep. Name (Config ep) = n) (endpoints m))"
    unfolding GetEndpointByNameAny_def endpoints_TriggerRequestFailover [OF look]
    by (rule find_modifyEndpoint) simp
  with look show ?thesis
    by (simp add: GetEndpointByNameAny_def Add_def d)
qed

theorem TriggerRequestFailover_sets_cooldown_witness:
  "GetEndpointByNameAny
     (mkManager ''priority'' [mkEndpoint ''a'' 1 None True 0, mkEndpoint ''b'' 2 None True 0]) ''a''
     = Some (mkEndpoint ''a'' 1 None True 0) \<and>
   map_option (\<lambda>e'. (CooldownUntil (Status e'), CooldownReason (Status e')))
     (GetEndpointByNameAny
        (snd (TriggerRequestFailover sampleLib sampleGroups
           (mkManager ''priority'' [mkEndpoint ''a'' 1 None True 0, mkEndpoint ''b'' 2 None True 0])
           1000 1001 ''a'' ''connection refused'')) ''a'')
     = Some (600000001000, ''connection refused'')"
proof -
  let ?a = "mkEndpoint ''a'' 1 None True 0"
  let ?m = "mkManager ''priority'' [?a, mkEndpoint ''b'' 2 None True 0]"
  have h: "GetEndpointByNameAny ?m ''a'' = Some ?a"
    by (simp add: GetEndpointByNameAny_def mkManager_def mkEndpoint_def)
  have c: "Cooldown (Config ?a) = None" "DefaultCooldown (Failover (config ?m)) = 0"
    by (simp_all add: mkEndpoint_def mkManager_def)
  from TriggerRequestFailover_sets_cooldown
         [OF h, of sampleLib sampleGroups 1000 1001 "''connection refused''"] c
  have "map_option (\<lambda>e'. (CooldownUntil (Status e'), CooldownReason (Status e'), Config e'))
          (GetEndpointByNameAny
             (snd (TriggerRequestFailover sampleLib sampleGroups ?m 1000 1001 ''a'' ''connection refused'')) ''a'')
        = Some (600000001000, ''connection refused'', Config ?a)"
    by simp
  then have "map_option (\<lambda>e'. (CooldownUntil (Status e'), CooldownReason (Status e')))
          (GetEndpointByNameAny
             (snd (TriggerRequestFailover sampleLib sampleGroups ?m 1000 1001 ''a'' ''connection refused'')) ''a'')
        = Some (600000001000, ''connection refused'')"
    by (auto simp: map_option_case split: option.splits)
  with h show ?thesis by simp
qed

section \<open>Manual activation clears the cooldown\<close>

lemma endpoints_ClearEndpointCooldown:
  "GetEndpointByNameAny (ClearEndpointCooldown m n) n =
     map_option (\<lambda>ep. if IsZero (CooldownUntil (Status ep)) then ep
                       else ep\<lparr>Status := (Status ep)\<lparr>CooldownUntil := 0, CooldownReason := ''''\<rparr>\<rparr>)
       (GetEndpointByNameAny m n)"
proof (cases "GetEndpointByNameAny m n")
  case None
  then show ?thesis by (simp add: ClearEndpointCooldown_def)
next
  case (Some ep)
  show ?thesis
  proof (cases "IsZero (CooldownUntil (Status ep))")
    case True
    with Some show ?thesis by (simp add: ClearEndpointCooldown_def)
  next
    case False
    have "find (\<lambda>ep. Name (Config ep) = n)
            (modifyEndpoint n (\<lambda>ep. ep\<lparr>Status := (Status ep)\<lparr>CooldownUntil := 0, CooldownReason := ''''\<rparr>\<rparr>) (endpoints m))
          = map_option (\<lambda>ep. ep\<lparr>Status := (Status ep)\<lparr>CooldownUntil := 0, CooldownReason := ''''\<rparr>\<rparr>)
              (find (\<lambda>ep. Name (Config ep) = n) (endpoints m))"
      by (rule find_modifyEndpoint) simp
    with Some False show ?thesis
      by (simp add: ClearEndpointCooldown_def GetEndpointByNameAny_def)
  qed
qed

text \<open>
  Every operation that writes an endpoint's status keeps its cooldown fields
  consistent (for \<open>TriggerRequestFailover\<close>: unless the end of the cooldown falls on
  the zero time itself, which no clock reading and duration of this era give).
\<close>

lemma cooldownConsistent_newEndpoint: "cooldownConsistent (newEndpoint now cfg)"
  by (simp add: cooldownConsistent_def newEndpoint_def)

lemma list_all_modifyEndpoint:
  "list_all P eps \<Longrightarrow> (\<And>ep. P ep \<Longrightarrow> P (f ep)) \<Longrightarrow> list_all P (modifyEndpoint n f eps)"
  by (induction eps) auto

lemma list_all_removeFirst: "list_all P eps \<Longrightarrow> list_all P (removeFirst n eps)"
  by (induction eps) auto

lemma cooldownConsistent_SyncEndpoints:
  "list_all cooldownConsistent (endpoints (SyncEndpoints gm m clock configs))"
  by (auto simp: SyncEndpoints_def Let_def list_all_iff cooldownConsistent_newEndpoint)

lemma cooldownConsistent_AddEndpoint:
  assumes "list_all cooldownConsistent (endpoints m)"
    and "\<And>x. list_all cooldownConsistent (endpoints x) \<Longrightarrow>
           list_all cooldownConsistent (endpoints (others x))"
    and "\<And>x. list_all cooldownConsistent (endpoints x) \<Longrightarrow>
           list_all cooldownConsistent (endpoints (others' x))"
  shows "list_all cooldownConsistent (endpoints (snd (AddEndpoint gm m others others' now cfg)))"
  using assms by (simp add: AddEndpoint_def Let_def cooldownConsistent_newEndpoint)

lemma cooldownConsistent_RemoveEndpoint:
  "list_all cooldownConsistent (endpoints m) \<Longrightarrow>
     list_all cooldownConsistent (endpoints (snd (RemoveEndpoint gm m name)))"
  by (simp add: RemoveEndpoint_def Let_def list_all_removeFirst)

lemma cooldownConsistent_UpdateEndpointConfig:
  "list_all cooldownConsistent (endpoints m) \<Longrightarrow>
     list_all cooldownConsistent (endpoints (snd (UpdateEndpointConfig gm m name cfg)))"
  by (auto simp: UpdateEndpointConfig_def Let_def cooldownConsistent_def
      intro!: list_all_modifyEndpoint split: option.splits)

lemma cooldownConsistent_ClearEndpointCooldown:
  "list_all cooldownConsistent (endpoints m) \<Longrightarrow>
     list_all cooldownConsistent (endpoints (ClearEndpointCooldown m name))"
  by (auto simp: ClearEndpointCooldown_def cooldownConsistent_def
      intro!: list_all_modifyEndpoint split: option.splits)

lemma cooldownConsistent_ManualActivateGroup:
  "list_all cooldownConsistent (endpoints m) \<Longrightarrow>
     list_all cooldownConsistent (endpoints (snd (ManualActivateGroup gm m name)))"
  using cooldownConsistent_ClearEndpointCooldown [of "m\<lparr>groupManager := g\<rparr>" name for g]
  by (auto simp: ManualActivateGroup_def Let_def split: prod.splits option.splits)

lemma cooldownConsistent_TriggerRequestFailover:
  assumes "list_all cooldownConsistent (endpoints m)"
    and "\<And>e. GetEndpointByNameAny m n = Some e \<Longrightarrow> Add now (cooldownDuration m e) \<noteq> 0"
  shows "list_all cooldownConsistent
           (endpoints (snd (TriggerRequestFailover lib gm m now now' n reason)))"
proof (cases "GetEndpointByNameAny m n")
  case None
  with assms(1) show ?thesis by (simp add: TriggerRequestFailover_def)
next
  case (Some e)
  from assms(2) [OF Some] assms(1) show ?thesis
    unfolding endpoints_TriggerRequestFailover [OF Some]
    by (intro list_all_modifyEndpoint) (simp_all add: cooldownConsistent_def IsZero_def)
qed

text \<open>
  Claim C10. When \<open>Manager.ManualActivateGroup n\<close> succeeds, the endpoint named \<open>n\<close>, if
  there is one, has \<open>cooldownUntil\<close> the zero time afterwards, and \<open>cooldownReason\<close> the
  empty string (the endpoint's cooldown fields being consistent before the call, as
  they are in every state the operations above produce); with no endpoint of that
  name the endpoint list is as before. When the group manager's activation returns
  an error, the endpoint list, and with it every endpoint's cooldown state, is as
  before.
\<close>

theorem ManualActivateGroup_clears_cooldown:
  "(fst (ManualActivateGroup gm m n) = None \<and> GetEndpointByNameAny m n = Some e \<longrightarrow>
      map_option (\<lambda>e'. CooldownUntil (Status e'))
        (GetEndpointByNameAny (snd (ManualActivateGroup gm m n)) n) = Some 0 \<and>
      (cooldownConsistent e \<longrightarrow>
         map_option (\<lambda>e'. CooldownReason (Status e'))
           (GetEndpointByNameAny (snd (ManualActivateGroup gm m n)) n) = Some '''')) \<and>
   (GetEndpointByNameAny m n = None \<longrightarrow>
      endpoints (snd (ManualActivateGroup gm m n)) = endpoints m) \<and>
   (fst (ManualActivateGroup gm m n) \<noteq> None \<longrightarrow>
      endpoints (snd (ManualActivateGroup gm m n)) = endpoints m)"
proof -
  obtain r g where act: "gmManualActivateGroup gm (groupManager m) n = (r, g)"
    by (cases "gmManualActivateGroup gm (groupManager m) n")
  have same: "GetEndpointByNameAny (m\<lparr>groupManager := g\<rparr>) n = GetEndpointByNameAny m n"
    by (simp add: GetEndpointByNameAny_def)
  have failed: "endpoints (snd (ManualActivateGroup gm m n)) = endpoints m"
    if "fst (ManualActivateGroup gm m n) \<noteq> None"
    using that by (auto simp: ManualActivateGroup_def Let_def split: prod.splits option.splits)
  have absent: "endpoints (snd (ManualActivateGroup gm m n)) = endpoints m"
    if "GetEndpointByNameAny m n = None"
    using that act same
    by (cases r) (simp_all add: ManualActivateGroup_def Let_def ClearEndpointCooldown_def)
  have cleared:
    "map_option (\<lambda>e'. CooldownUntil (Status e'))
       (GetEndpointByNameAny (snd (ManualActivateGroup gm m n)) n) = Some 0 \<and>
     (cooldownConsistent e \<longrightarrow>
        map_option (\<lambda>e'. CooldownReason (Status e'))
          (GetEndpointByNameAny (snd (ManualActivateGroup gm m n)) n) = Some '''')"
    if ok: "fst (ManualActivateGroup gm m n) = None" and look: "GetEndpointByNameAny m n = Some e"
  proof -
    from ok act have r: "r = None"
      by (cases r) (simp_all add: ManualActivateGroup_def Let_def)
    have "GetEndpointByNameAny (snd (ManualActivateGroup gm m n)) n
            = GetEndpointByNameAny (ClearEndpointCooldown (m\<lparr>groupManager := g\<rparr>) n) n"
      using act r by (simp add: ManualActivateGroup_def Let_def GetEndpointByNameAny_def)
    with look same show ?thesis
      by (simp add: endpoints_ClearEndpointCooldown cooldownConsistent_def IsZero_def)
  qed
  from failed absent cleared show ?thesis by blast
qed

theorem ManualActivateGroup_clears_cooldown_witness:
  "CooldownUntil (Status coolingEndpoint) = 500 \<and>
   CooldownReason (Status coolingEndpoint) = ''connection refused'' \<and>
   fst (ManualActivateGroup sampleGroups
          (mkManager ''priority'' [coolingEndpoint]) ''a'') = None \<and>
   cooldownConsistent coolingEndpoint \<and>
   map_option (\<lambda>e'. CooldownUntil (Status e'))
     (GetEndpointByNameAny
        (snd (ManualActivateGroup sampleGroups
           (mkManager ''priority'' [coolingEndpoint]) ''a'')) ''a'')
     = Some 0 \<and>
   map_option (\<lambda>e'. CooldownReason (Status e'))
     (GetEndpointByNameAny
        (snd (ManualActivateGroup sampleGroups
           (mkManager ''priority'' [coolingEndpoint]) ''a'')) ''a'')
     = Some '''' \<and>
   GetEndpointByNameAny (mkManager ''priority'' [coolingEndpoint]) ''b'' = None \<and>
   endpoints (snd (ManualActivateGroup sampleGroups
          (mkManager ''priority'' [coolingEndpoint]) ''b''))
     = [coolingEndpoint] \<and>
   fst (ManualActivateGroup sampleGroups
          (mkManager ''priority'' [coolingEndpoint]) '''') \<noteq> None \<and>
   endpoints (snd (ManualActivateGroup sampleGroups
          (mkManager ''priority'' [coolingEndpoint]) ''''))
     = [coolingEndpoint]"
proof -
  let ?a = "coolingEndpoint"
  let ?m = "mkManager ''priority'' [?a]"
  have ok: "fst (ManualActivateGroup sampleGroups ?m ''a'') = None"
    by (simp add: ManualActivateGroup_def sampleGroups_def Let_def)
  have before: "CooldownUntil (Status ?a) = 500"
    "CooldownReason (Status ?a) = ''connection refused''"
    by (simp_all add: coolingEndpoint_def mkEndpoint_def)
  have look: "GetEndpointByNameAny ?m ''a'' = Some ?a"
    by (simp add: GetEndpointByNameAny_def mkManager_def coolingEndpoint_def mkEndpoint_def)
  have cc: "cooldownConsistent ?a"
    by (simp add: cooldownConsistent_def coolingEndpoint_def mkEndpoint_def IsZero_def)
  have err: "fst (ManualActivateGroup sampleGroups ?m '''') \<noteq> None"
    by (simp add: ManualActivateGroup_def sampleGroups_def)
  have eps: "endpoints ?m = [?a]"
    by (simp add: mkManager_def)
  have none: "GetEndpointByNameAny ?m ''b'' = None"
    by (simp add: GetEndpointByNameAny_def mkManager_def coolingEndpoint_def mkEndpoint_def)
  from ManualActivateGroup_clears_cooldown [of sampleGroups ?m "''a''" ?a] ok look cc
  have 1: "map_option (\<lambda>e'. CooldownUntil (Status e'))
     (GetEndpointByNameAny (snd (ManualActivateGroup sampleGroups ?m ''a'')) ''a'') = Some 0"
    "map_option (\<lambda>e'. CooldownReason (Status e'))
     (GetEndpointByNameAny (snd (ManualActivateGroup sampleGroups ?m ''a'')) ''a'') = Some ''''"
    by simp_all
  from ManualActivateGroup_clears_cooldown [of sampleGroups ?m "''''" ?a] err eps
  have 2: "endpoints (snd (ManualActivateGroup sampleGroups ?m '''')) = [?a]"
    by simp
  from ManualActivateGroup_clears_cooldown [of sampleGroups ?m "''b''" ?a] none eps
  have 3: "endpoints (snd (ManualActivateGroup sampleGroups ?m ''b'')) = [?a]"
    by simp
  from before ok cc 1 err 2 none 3 show ?thesis by simp
qed

section \<open>The attempts cap\<close>

lemma ClassifyError_counts:
  "MaxRetries (ClassifyError lib erm err requestID endpoint grp attempt) = maxRetries erm \<and>
   AttemptCount (ClassifyError lib erm err requestID endpoint grp attempt) = attempt"
  by (simp add: ClassifyError_def Let_def split: option.splits)

lemma ShouldRetry_cap: "AttemptCount c \<ge> MaxRetries c \<Longrightarrow> \<not> ShouldRetry c"
  by (simp add: ShouldRetry_def)

text \<open>
  Claim C8. For every error context \<open>c\<close>, if \<open>c.AttemptCount \<ge> c.MaxRetries\<close> then
  \<open>ShouldRetry c\<close> is false whatever the kind. A new manager has a maximum of 3, which
  \<open>ClassifyError\<close> copies into the context, so from attempt 3 on nothing is retried.
  With a cap of 0 no error is retried at any attempt count (counts start at 0).
\<close>

theorem attempts_cap:
  "(AttemptCount c \<ge> MaxRetries c \<longrightarrow> \<not> ShouldRetry c) \<and>
   maxRetries (NewErrorRecoveryManager lib tracker) = 3 \<and>
   MaxRetries (ClassifyError lib erm err requestID endpoint grp attempt) = maxRetries erm \<and>
   (3 \<le> attempt \<longrightarrow>
      \<not> ShouldRetry (ClassifyError lib (NewErrorRecoveryManager lib tracker) err requestID endpoint grp attempt)) \<and>
   (MaxRetries c = 0 \<and> 0 \<le> AttemptCount c \<longrightarrow> \<not> ShouldRetry c) \<and>
   (maxRetries erm = 0 \<and> 0 \<le> attempt \<longrightarrow>
      \<not> ShouldRetry (ClassifyError lib erm err requestID endpoint grp attempt))"
proof (intro conjI impI)
  show "maxRetries (NewErrorRecoveryManager lib tracker) = 3"
    by (simp add: NewErrorRecoveryManager_def)
  show "MaxRetries (ClassifyError lib erm err requestID endpoint grp attempt) = maxRetries erm"
    by (simp add: ClassifyError_counts)
  { assume "MaxRetries c \<le> AttemptCount c"
    then show "\<not> ShouldRetry c" by (rule ShouldRetry_cap) }
  { assume "3 \<le> attempt"
    then show "\<not> ShouldRetry (ClassifyError lib (NewErrorRecoveryManager lib tracker) err requestID endpoint grp attempt)"
      by (intro ShouldRetry_cap) (simp add: ClassifyError_counts NewErrorRecoveryManager_def) }
  { assume "MaxRetries c = 0 \<and> 0 \<le> AttemptCount c"
    then show "\<not> ShouldRetry c" by (intro ShouldRetry_cap) simp }
  { assume "maxRetries erm = 0 \<and> 0 \<le> attempt"
    then show "\<not> ShouldRetry (ClassifyError lib erm err requestID endpoint grp attempt)"
      by (intro ShouldRetry_cap) (simp add: ClassifyError_counts) }
qed

theorem attempts_cap_witness:
  "AttemptCount (mkContext ErrorTypeNetwork 3 3) \<ge> MaxRetries (mkContext ErrorTypeNetwork 3 3) \<and>
   \<not> ShouldRetry (mkContext ErrorTypeNetwork 3 3) \<and>
   ShouldRetry (mkContext ErrorTypeNetwork 2 3) \<and>
   \<not> ShouldRetry (ClassifyError sampleLib (NewErrorRecoveryManager sampleLib None)
         (Some (mkError ''connection refused'')) ''req-1'' ''a'' ''a'' 3) \<and>
   MaxRetries (mkContext ErrorTypeNetwork 0 0) = 0 \<and>
   \<not> ShouldRetry (mkContext ErrorTypeNetwork 0 0) \<and>
   maxRetries (SetRetryPolicy (NewErrorRecoveryManager sampleLib None) 0 Second (30 * Second) 2) = 0 \<and>
   \<not> ShouldRetry (ClassifyError sampleLib (SetRetryPolicy (NewErrorRecoveryManager sampleLib None) 0 Second (30 * Second) 2)
         (Some (mkError ''connection refused'')) ''req-1'' ''a'' ''a'' 0)"
proof -
  let ?e = "Some (mkError ''connection refused'')"
  let ?erm0 = "SetRetryPolicy (NewErrorRecoveryManager sampleLib None) 0 Second (30 * Second) 2"
  have c33: "AttemptCount (mkContext ErrorTypeNetwork 3 3) \<ge> MaxRetries (mkContext ErrorTypeNetwork 3 3)"
    by (simp add: mkContext_def)
  have c00: "MaxRetries (mkContext ErrorTypeNetwork 0 0) = 0" "0 \<le> AttemptCount (mkContext ErrorTypeNetwork 0 0)"
    by (simp_all add: mkContext_def)
  have m0: "maxRetries ?erm0 = 0"
    by (simp add: SetRetryPolicy_def)
  have r: "ShouldRetry (mkContext ErrorTypeNetwork 2 3)"
    by (simp add: ShouldRetry_def mkContext_def)
  from attempts_cap [of "mkContext ErrorTypeNetwork 3 3" sampleLib None ?erm0 ?e "''req-1''" "''a''" "''a''" 3] c33
  have 1: "\<not> ShouldRetry (mkContext ErrorTypeNetwork 3 3)"
    "\<not> ShouldRetry (ClassifyError sampleLib (NewErrorRecoveryManager sampleLib None) ?e ''req-1'' ''a'' ''a'' 3)"
    by simp_all
  from attempts_cap [of "mkContext ErrorTypeNetwork 0 0" sampleLib None ?erm0 ?e "''req-1''" "''a''" "''a''" 0] c00 m0
  have 2: "\<not> ShouldRetry (mkContext ErrorTypeNetwork 0 0)"
    "\<not> ShouldRetry (ClassifyError sampleLib ?erm0 ?e ''req-1'' ''a'' ''a'' 0)"
    by simp_all
  from c33 c00 m0 r 1 2 show ?thesis by simp
qed

section \<open>Final errors and their terminal status\<close>

text \<open>
  Claim C2. For every error context whose kind is EOF, ResponseTimeout, Stream, HTTP,
  Auth, Unknown or ClientCancel, \<open>ShouldRetry\<close> is false whatever the attempt count.
  \<open>HandleFinalFailure\<close>, for a request with an id and a tracker attached, sends the
  tracker one update for that request whose status is \<open>eof_interrupted\<close> for EOF,
  \<open>cancelled\<close> for ClientCancel, \<open>timeout\<close> for ResponseTimeout and Timeout,
  \<open>connection_timeout\<close> for ConnectionTimeout, \<open>auth_error\<close> for Auth, \<open>rate_limited\<close>
  for RateLimit, \<open>server_error\<close> for ServerError, \<open>stream_error\<close> for Stream and
  \<open>error\<close> for anything else; without a tracker or an id there is no record and
  nothing is sent.
\<close>

theorem final_errors_and_status:
  "(ErrorType c \<in> {ErrorTypeEOF, ErrorTypeResponseTimeout, ErrorTypeStream, ErrorTypeHTTP,
                    ErrorTypeAuth, ErrorTypeUnknown, ErrorTypeClientCancel} \<longrightarrow> \<not> ShouldRetry c) \<and>
   (usageTracker erm = Some tracker \<and> RequestID c \<noteq> '''' \<longrightarrow>
      usageTracker (HandleFinalFailure erm c) =
        Some (tracker @
          [(RequestID c,
            \<lparr>optEndpointName = Some (EndpointName c), optGroupName = Some (GroupName c),
             optStatus = Some
               (if ErrorType c = ErrorTypeEOF then ''eof_interrupted''
                else if ErrorType c = ErrorTypeClientCancel then ''cancelled''
                else if ErrorType c = ErrorTypeResponseTimeout \<or> ErrorType c = ErrorTypeTimeout
                     then ''timeout''
                else if ErrorType c = ErrorTypeConnectionTimeout then ''connection_timeout''
                else if ErrorType c = ErrorTypeAuth then ''auth_error''
                else if ErrorType c = ErrorTypeRateLimit then ''rate_limited''
                else if ErrorType c = ErrorTypeServerError then ''server_error''
                else if ErrorType c = ErrorTypeStream then ''stream_error''
                else ''error''),
             optRetryCount = Some (AttemptCount c), optHttpStatus = Some 0\<rparr>)])) \<and>
   (usageTracker erm = None \<or> RequestID c = '''' \<longrightarrow> HandleFinalFailure erm c = erm)"
proof (intro conjI impI)
  assume "ErrorType c \<in> {ErrorTypeEOF, ErrorTypeResponseTimeout, ErrorTypeStream, ErrorTypeHTTP,
                    ErrorTypeAuth, ErrorTypeUnknown, ErrorTypeClientCancel}"
  then show "\<not> ShouldRetry c"
    by (auto simp: ShouldRetry_def)
next
  assume "usageTracker erm = None \<or> RequestID c = ''''"
  then show "HandleFinalFailure erm c = erm"
    by (auto simp: HandleFinalFailure_def split: option.splits)
next
  assume a: "usageTracker erm = Some tracker \<and> RequestID c \<noteq> ''''"
  have st: "finalStatus (ErrorType c) =
               (if ErrorType c = ErrorTypeEOF then ''eof_interrupted''
                else if ErrorType c = ErrorTypeClientCancel then ''cancelled''
                else if ErrorType c = ErrorTypeResponseTimeout \<or> ErrorType c = ErrorTypeTimeout
                     then ''timeout''
                else if ErrorType c = ErrorTypeConnectionTimeout then ''connection_timeout''
                else if ErrorType c = ErrorTypeAuth then ''auth_error''
                else if ErrorType c = ErrorTypeRateLimit then ''rate_limited''
                else if ErrorType c = ErrorTypeServerError then ''server_error''
                else if ErrorType c = ErrorTypeStream then ''stream_error''
                else ''error'')"
    by (cases "ErrorType c") (simp_all add: finalStatus_def)
  from a show "usageTracker (HandleFinalFailure erm c) =
        Some (tracker @
          [(RequestID c,
            \<lparr>optEndpointName = Some (EndpointName c), optGroupName = Some (GroupName c),
             optStatus = Some
               (if ErrorType c = ErrorTypeEOF then ''eof_interrupted''
                else if ErrorType c = ErrorTypeClientCancel then ''cancelled''
                else if ErrorType c = ErrorTypeResponseTimeout \<or> ErrorType c = ErrorTypeTimeout
                     then ''timeout''
                else if ErrorType c = ErrorTypeConnectionTimeout then ''connection_timeout''
                else if ErrorType c = ErrorTypeAuth then ''auth_error''
                else if ErrorType c = ErrorTypeRateLimit then ''rate_limited''
                else if ErrorType c = ErrorTypeServerError then ''server_error''
                else if ErrorType c = ErrorTypeStream then ''stream_error''
                else ''error''),
             optRetryCount = Some (AttemptCount c), optHttpStatus = Some 0\<rparr>)])"
    unfolding st [symmetric] by (simp add: HandleFinalFailure_def Let_def)
qed

theorem final_errors_and_status_witness:
  "ErrorType (mkContext ErrorTypeEOF 0 3) \<in>
     {ErrorTypeEOF, ErrorTypeResponseTimeout, ErrorTypeStream, ErrorTypeHTTP,
      ErrorTypeAuth, ErrorTypeUnknown, ErrorTypeClientCancel} \<and>
   \<not> ShouldRetry (mkContext ErrorTypeEOF 0 3) \<and>
   usageTracker (NewErrorRecoveryManager sampleLib (Some [])) = Some [] \<and>
   RequestID (mkContext ErrorTypeEOF 0 3) \<noteq> '''' \<and>
   usageTracker (HandleFinalFailure (NewErrorRecoveryManager sampleLib (Some [])) (mkContext ErrorTypeEOF 0 3))
     = Some [(''req-1'',
              \<lparr>optEndpointName = Some ''a'', optGroupName = Some ''a'',
               optStatus = Some ''eof_interrupted'', optRetryCount = Some 0,
               optHttpStatus = Some 0\<rparr>)] \<and>
   usageTracker (NewErrorRecoveryManager sampleLib None) = None \<and>
   HandleFinalFailure (NewErrorRecoveryManager sampleLib None) (mkContext ErrorTypeEOF 0 3)
     = NewErrorRecoveryManager sampleLib None"
proof -
  let ?c = "mkContext ErrorTypeEOF 0 3"
  have k: "ErrorType ?c = ErrorTypeEOF" "RequestID ?c = ''req-1''" "EndpointName ?c = ''a''"
    "GroupName ?c = ''a''" "AttemptCount ?c = 0"
    by (simp_all add: mkContext_def)
  have t: "usageTracker (NewErrorRecoveryManager sampleLib (Some [])) = Some []"
    "usageTracker (NewErrorRecoveryManager sampleLib None) = None"
    by (simp_all add: NewErrorRecoveryManager_def)
  from final_errors_and_status [of ?c "NewErrorRecoveryManager sampleLib (Some [])" "[]"] k t
  have 1: "\<not> ShouldRetry ?c"
    "usageTracker (HandleFinalFailure (NewErrorRecoveryManager sampleLib (Some [])) ?c)
     = Some [(''req-1'',
              \<lparr>optEndpointName = Some ''a'', optGroupName = Some ''a'',
               optStatus = Some ''eof_interrupted'', optRetryCount = Some 0,
               optHttpStatus = Some 0\<rparr>)]"
    by simp_all
  from final_errors_and_status [of ?c "NewErrorRecoveryManager sampleLib None" "[]"] t
  have 2: "HandleFinalFailure (NewErrorRecoveryManager sampleLib None) ?c = NewErrorRecoveryManager sampleLib None"
    by simp
  from k t 1 2 show ?thesis by simp
qed

section \<open>Classification of 4xx errors\<close>

text \<open>
  The message of a status \<open>4xy\<close> is ASCII and in lower case, so \<^verbatim>\<open>strings.ToLower\<close>
  returns it as it is, whatever the Unicode tables are.
\<close>

lemma toLower_digit: "isDigit c \<Longrightarrow> toLower c = c \<and> (of_char c :: nat) < 128"
  by (auto simp: isDigit_def toLower_def)

lemma ToLower_status4xx:
  assumes "isDigit x" "isDigit y"
  shows "ToLower lib (status4xx x y) = status4xx x y"
proof -
  have "isASCII upstream4" "map toLower upstream4 = upstream4"
    by (simp_all add: upstream4_def isASCII_def toLower_def)
  with toLower_digit [OF assms(1)] toLower_digit [OF assms(2)] show ?thesis
    by (simp add: ToLower_def status4xx_def isASCII_def)
qed

lemma sublist_append_disjoint:
  assumes "set p \<inter> set ys = {}" "p \<noteq> []"
  shows "sublist p (xs @ ys) \<longleftrightarrow> sublist p xs"
proof
  assume "sublist p xs"
  then show "sublist p (xs @ ys)" by (auto simp: sublist_append)
next
  assume "sublist p (xs @ ys)"
  then consider "sublist p xs" | "sublist p ys"
    | p1 p2 where "p = p1 @ p2" "suffix p1 xs" "prefix p2 ys"
    by (auto simp: sublist_append)
  then show "sublist p xs"
  proof cases
    case 1
    then show ?thesis .
  next
    case 2
    then have "set p \<subseteq> set ys" by (rule set_mono_sublist)
    with assms show ?thesis by (cases p) auto
  next
    case 3
    from 3(3) have "set p2 \<subseteq> set ys" by (rule set_mono_prefix)
    with assms(1) 3(1) have "p2 = []" by (cases p2) auto
    with 3 show ?thesis by (simp add: suffix_imp_sublist)
  qed
qed

text \<open>
  A pattern without a digit occurs in the message of a status \<open>4xy\<close> only if it
  occurs in the words before the last two digits; of all such patterns of the
  classifier only \<open>endpoint returned error\<close> does.
\<close>

lemma Contains_status4xx_digitFree:
  assumes "digitFree p" "isDigit x" "isDigit y"
  shows "Contains (status4xx x y) p \<longleftrightarrow> Contains upstream4 p"
proof -
  from assms have "set p \<inter> set [x, y] = {}" "p \<noteq> []"
    by (auto simp: digitFree_def list_all_iff)
  then show ?thesis
    unfolding Contains_def status4xx_def by (rule sublist_append_disjoint)
qed

lemma list_ex_status4xx_digitFree:
  assumes "list_all digitFree ps" "isDigit x" "isDigit y"
  shows "list_ex (\<lambda>p. Contains (status4xx x y) p) ps \<longleftrightarrow> list_ex (\<lambda>p. Contains upstream4 p) ps"
  using assms by (induction ps) (simp_all add: Contains_status4xx_digitFree)

lemma digitFree_patterns:
  "list_all digitFree
     [''context canceled'', ''canceled'', ''client disconnected'',
      ''connection closed by client'', ''client gone away''] \<and>
   list_all digitFree [''eof'', ''unexpected eof''] \<and>
   list_all digitFree
     [''dial timeout'', ''dial tcp'', ''connection timed out'',
      ''connect timeout'', ''dial i/o timeout''] \<and>
   list_all digitFree
     [''timeout'', ''deadline exceeded'', ''context deadline exceeded'',
      ''i/o timeout'', ''read timeout'', ''write timeout'', ''operation timed out''] \<and>
   list_all digitFree
     [''connection reset'', ''connection refused'', ''connection closed'',
      ''network is unreachable'', ''no route to host'', ''broken pipe'',
      ''upstream connect'', ''connect error'', ''stream reset''] \<and>
   list_all digitFree
     [''rate'', ''quota'', ''limit'', ''too many requests'', ''rate_limit'', ''throttle'',
      ''quota exceeded'', ''auth'', ''unauthorized'', ''streaming not supported'',
      ''stream_error'', ''sse'', ''event-stream'', ''stream parsing'',
      ''http'', ''status'', ''no healthy endpoints available''] \<and>
   digitFree ''endpoint returned error''"
  by code_simp

lemma upstream4_patterns:
  "\<not> list_ex (\<lambda>p. Contains upstream4 p)
     [''context canceled'', ''canceled'', ''client disconnected'',
      ''connection closed by client'', ''client gone away''] \<and>
   \<not> list_ex (\<lambda>p. Contains upstream4 p) [''eof'', ''unexpected eof''] \<and>
   \<not> list_ex (\<lambda>p. Contains upstream4 p)
     [''dial timeout'', ''dial tcp'', ''connection timed out'',
      ''connect timeout'', ''dial i/o timeout''] \<and>
   \<not> list_ex (\<lambda>p. Contains upstream4 p)
     [''timeout'', ''deadline exceeded'', ''context deadline exceeded'',
      ''i/o timeout'', ''read timeout'', ''write timeout'', ''operation timed out''] \<and>
   \<not> list_ex (\<lambda>p. Contains upstream4 p)
     [''connection reset'', ''connection refused'', ''connection closed'',
      ''network is unreachable'', ''no route to host'', ''broken pipe'',
      ''upstream connect'', ''connect error'', ''stream reset''] \<and>
   \<not> list_ex (\<lambda>p. Contains upstream4 p)
     [''rate'', ''quota'', ''limit'', ''too many requests'', ''rate_limit'', ''throttle'',
      ''quota exceeded'', ''auth'', ''unauthorized'', ''streaming not supported'',
      ''stream_error'', ''sse'', ''event-stream'', ''stream parsing'',
      ''http'', ''status'', ''no healthy endpoints available''] \<and>
   Contains upstream4 ''endpoint returned error''"
  by code_simp

lemma status4xx_early:
  assumes "plainError e" "Error e = status4xx x y" "isDigit x" "isDigit y"
  shows "\<not> isClientCancelError lib e" "\<not> isEOFError lib e" "\<not> isConnectionTimeoutError lib e"
    "\<not> isTimeoutError lib e" "\<not> isNetworkError lib e"
  using assms digitFree_patterns upstream4_patterns
  by (simp_all only: isClientCancelError_def isEOFError_def isConnectionTimeoutError_def
        isTimeoutError_def isNetworkError_def plainError_def ToLower_status4xx
        list_ex_status4xx_digitFree if_False option.case option.simps simp_thms)

lemma status4xx_words:
  assumes "isDigit x" "isDigit y"
  shows "\<not> list_ex (\<lambda>p. Contains (status4xx x y) p)
     [''rate'', ''quota'', ''limit'', ''too many requests'', ''rate_limit'', ''throttle'',
      ''quota exceeded'', ''auth'', ''unauthorized'', ''streaming not supported'',
      ''stream_error'', ''sse'', ''event-stream'', ''stream parsing'',
      ''http'', ''status'', ''no healthy endpoints available'']"
    and "Contains (status4xx x y) ''endpoint returned error''"
  using assms digitFree_patterns upstream4_patterns
  by (simp_all only: list_ex_status4xx_digitFree Contains_status4xx_digitFree simp_thms)

lemma status4xx_codes:
  "Contains (status4xx x y) ''429'' \<longleftrightarrow> [x, y] = ''29''"
  "Contains (status4xx x y) ''400'' \<longleftrightarrow> [x, y] = ''00''"
  "Contains (status4xx x y) ''401'' \<longleftrightarrow> [x, y] = ''01''"
  "Contains (status4xx x y) ''endpoint returned error: 429'' \<longleftrightarrow> [x, y] = ''29''"
  "Contains (status4xx x y) ''endpoint returned error: 400'' \<longleftrightarrow> [x, y] = ''00''"
  "\<not> Contains (status4xx x y) ''endpoint returned error: 5''"
  "\<not> HasPrefix (status4xx x y) ''stream_status:''"
  by (auto simp: Contains_def HasPrefix_def status4xx_def upstream4_def sublist_Cons_right)

lemma status4xx_5xx:
  "\<not> list_ex (\<lambda>p. Contains (status4xx x y) p)
     [''500'', ''501'', ''502'', ''503'', ''504'', ''505'',
      ''520'', ''521'', ''522'', ''523'', ''524'', ''525'']"
  by (auto simp: Contains_def status4xx_def upstream4_def sublist_Cons_right)


text \<open>
  After the five early checks the kind is decided by the text alone, in this order.
\<close>

lemma ClassifyError_text:
  assumes "\<not> isClientCancelError lib e" "\<not> isEOFError lib e" "\<not> isConnectionTimeoutError lib e"
    "\<not> isTimeoutError lib e" "\<not> isNetworkError lib e"
  shows "ErrorType (ClassifyError lib erm (Some e) requestID endpoint grp attempt) =
     (let errStr = ToLower lib (Error e)
      in if rateLimitText errStr then ErrorTypeRateLimit
         else if serverErrorText errStr then ErrorTypeServerError
         else if authText errStr then ErrorTypeAuth
         else if streamText errStr then
           (if Contains errStr ''streaming not supported'' then ErrorTypeUnknown else ErrorTypeStream)
         else if httpText errStr then ErrorTypeHTTP
         else if Contains errStr ''no healthy endpoints available'' then ErrorTypeNoHealthyEndpoints
         else ErrorTypeUnknown)"
  using assms by (simp add: ClassifyError_def Let_def)

lemma status4xx_branches:
  assumes "isDigit x" "isDigit y"
  shows "rateLimitText (status4xx x y) \<longleftrightarrow> [x, y] = ''00'' \<or> [x, y] = ''29''"
    and "\<not> serverErrorText (status4xx x y)"
    and "authText (status4xx x y) \<longleftrightarrow> [x, y] = ''01''"
    and "\<not> streamText (status4xx x y)"
    and "httpText (status4xx x y) \<longleftrightarrow> \<not> ([x, y] = ''00'' \<or> [x, y] = ''29'')"
proof -
  note w = status4xx_words [OF assms]
  from w(1) show "rateLimitText (status4xx x y) \<longleftrightarrow> [x, y] = ''00'' \<or> [x, y] = ''29''"
    by (auto simp: rateLimitText_def status4xx_codes)
  from status4xx_5xx [of x y] show "\<not> serverErrorText (status4xx x y)"
    by (simp add: serverErrorText_def status4xx_codes)
  from w(1) show "authText (status4xx x y) \<longleftrightarrow> [x, y] = ''01''"
    by (simp add: authText_def status4xx_codes)
  from w(1) show "\<not> streamText (status4xx x y)"
    by (simp add: streamText_def status4xx_codes)
  from w show "httpText (status4xx x y) \<longleftrightarrow> \<not> ([x, y] = ''00'' \<or> [x, y] = ''29'')"
    by (auto simp: httpText_def status4xx_codes)
qed

lemma status4xx_kind:
  assumes "plainError e" "Error e = status4xx x y" "isDigit x" "isDigit y"
  shows "ErrorType (ClassifyError lib erm (Some e) requestID endpoint grp attempt) =
     (if [x, y] = ''00'' \<or> [x, y] = ''29'' then ErrorTypeRateLimit
      else if [x, y] = ''01'' then ErrorTypeAuth
      else ErrorTypeHTTP)"
proof -
  have low: "ToLower lib (Error e) = status4xx x y"
    using assms by (simp add: ToLower_status4xx)
  note b = status4xx_branches [OF assms(3,4)]
  show ?thesis
    unfolding ClassifyError_text [OF status4xx_early [OF assms, of lib]] low Let_def
    using b by auto
qed

text \<open>
  Claim C1, as the code has it. For every plain non-nil error whose text is the
  upstream message \<open>endpoint returned error: 4xy\<close> of a 4xx status, \<open>ClassifyError\<close>
  returns kind HTTP, and \<open>ShouldRetry\<close> is false, for every status other than 400, 401
  and 429; status 401 is kind Auth and not retried; 400 and 429 are kind RateLimit
  and retried exactly while attempts remain, 400 with no rate, quota or throttle
  language in its text. Beyond these messages, for every non-nil error that none
  of the earlier checks (client cancel, EOF, connection timeout, response timeout,
  network) catches: a lower-cased text that contains \<open>400\<close> is RateLimit, retried
  exactly while attempts remain; a text that contains \<open>http\<close>, \<open>status\<close> or
  \<open>endpoint returned error\<close> and none of the rate-limit markers (\<open>400\<close> and \<open>429\<close> among
  them), the 5xx markers, the auth markers (\<open>auth\<close>, \<open>unauthorized\<close>, \<open>401\<close>) or the
  stream markers is HTTP and not retried.
\<close>

theorem ClassifyError_4xx:
  "(plainError e \<and> Error e = status4xx x y \<and> isDigit x \<and> isDigit y \<longrightarrow>
      ErrorType (ClassifyError lib erm (Some e) requestID endpoint grp attempt) =
        (if [x, y] = ''00'' \<or> [x, y] = ''29'' then ErrorTypeRateLimit
         else if [x, y] = ''01'' then ErrorTypeAuth
         else ErrorTypeHTTP) \<and>
      (ShouldRetry (ClassifyError lib erm (Some e) requestID endpoint grp attempt) \<longleftrightarrow>
         ([x, y] = ''00'' \<or> [x, y] = ''29'') \<and> attempt < maxRetries erm)) \<and>
   (\<not> isClientCancelError lib e \<and> \<not> isEOFError lib e \<and> \<not> isConnectionTimeoutError lib e \<and>
    \<not> isTimeoutError lib e \<and> \<not> isNetworkError lib e \<longrightarrow>
      (Contains (ToLower lib (Error e)) ''400'' \<longrightarrow>
         ErrorType (ClassifyError lib erm (Some e) requestID endpoint grp attempt)
           = ErrorTypeRateLimit \<and>
         (ShouldRetry (ClassifyError lib erm (Some e) requestID endpoint grp attempt)
            \<longleftrightarrow> attempt < maxRetries erm)) \<and>
      ((Contains (ToLower lib (Error e)) ''http'' \<or> Contains (ToLower lib (Error e)) ''status'' \<or>
        Contains (ToLower lib (Error e)) ''endpoint returned error'') \<and>
       \<not> rateLimitText (ToLower lib (Error e)) \<and> \<not> serverErrorText (ToLower lib (Error e)) \<and>
       \<not> authText (ToLower lib (Error e)) \<and> \<not> streamText (ToLower lib (Error e)) \<longrightarrow>
         ErrorType (ClassifyError lib erm (Some e) requestID endpoint grp attempt) = ErrorTypeHTTP \<and>
         \<not> ShouldRetry (ClassifyError lib erm (Some e) requestID endpoint grp attempt)))"
proof -
  let ?c = "ClassifyError lib erm (Some e) requestID endpoint grp attempt"
  have family:
    "ErrorType ?c =
        (if [x, y] = ''00'' \<or> [x, y] = ''29'' then ErrorTypeRateLimit
         else if [x, y] = ''01'' then ErrorTypeAuth
         else ErrorTypeHTTP) \<and>
      (ShouldRetry ?c \<longleftrightarrow> ([x, y] = ''00'' \<or> [x, y] = ''29'') \<and> attempt < maxRetries erm)"
    if "plainError e \<and> Error e = status4xx x y \<and> isDigit x \<and> isDigit y"
  proof -
    from that have k: "ErrorType ?c =
        (if [x, y] = ''00'' \<or> [x, y] = ''29'' then ErrorTypeRateLimit
         else if [x, y] = ''01'' then ErrorTypeAuth
         else ErrorTypeHTTP)"
      by (intro status4xx_kind) simp_all
    then show ?thesis
      by (auto simp: ShouldRetry_def ClassifyError_counts)
  qed
  have general:
    "(Contains (ToLower lib (Error e)) ''400'' \<longrightarrow>
         ErrorType ?c = ErrorTypeRateLimit \<and> (ShouldRetry ?c \<longleftrightarrow> attempt < maxRetries erm)) \<and>
      ((Contains (ToLower lib (Error e)) ''http'' \<or> Contains (ToLower lib (Error e)) ''status'' \<or>
        Contains (ToLower lib (Error e)) ''endpoint returned error'') \<and>
       \<not> rateLimitText (ToLower lib (Error e)) \<and> \<not> serverErrorText (ToLower lib (Error e)) \<and>
       \<not> authText (ToLower lib (Error e)) \<and> \<not> streamText (ToLower lib (Error e)) \<longrightarrow>
         ErrorType ?c = ErrorTypeHTTP \<and> \<not> ShouldRetry ?c)"
    if early: "\<not> isClientCancelError lib e \<and> \<not> isEOFError lib e \<and>
       \<not> isConnectionTimeoutError lib e \<and> \<not> isTimeoutError lib e \<and> \<not> isNetworkError lib e"
  proof (intro conjI impI)
    from early have t: "ErrorType ?c =
       (let errStr = ToLower lib (Error e)
        in if rateLimitText errStr then ErrorTypeRateLimit
         else if serverErrorText errStr then ErrorTypeServerError
         else if authText errStr then ErrorTypeAuth
         else if streamText errStr then
           (if Contains errStr ''streaming not supported'' then ErrorTypeUnknown else ErrorTypeStream)
         else if httpText errStr then ErrorTypeHTTP
         else if Contains errStr ''no healthy endpoints available'' then ErrorTypeNoHealthyEndpoints
         else ErrorTypeUnknown)"
      by (intro ClassifyError_text) simp_all
    { assume "Contains (ToLower lib (Error e)) ''400''"
      then have "rateLimitText (ToLower lib (Error e))" by (simp add: rateLimitText_def)
      with t show k: "ErrorType ?c = ErrorTypeRateLimit"
        by (simp add: Let_def)
      then show "ShouldRetry ?c \<longleftrightarrow> attempt < maxRetries erm"
        by (auto simp: ShouldRetry_def ClassifyError_counts) }
    { assume a: "(Contains (ToLower lib (Error e)) ''http'' \<or>
           Contains (ToLower lib (Error e)) ''status'' \<or>
           Contains (ToLower lib (Error e)) ''endpoint returned error'') \<and>
          \<not> rateLimitText (ToLower lib (Error e)) \<and> \<not> serverErrorText (ToLower lib (Error e)) \<and>
          \<not> authText (ToLower lib (Error e)) \<and> \<not> streamText (ToLower lib (Error e))"
      then have "httpText (ToLower lib (Error e))"
        by (auto simp: httpText_def rateLimitText_def serverErrorText_def)
      with a t show k: "ErrorType ?c = ErrorTypeHTTP"
        by (simp add: Let_def)
      then show "\<not> ShouldRetry ?c"
        by (simp add: ShouldRetry_def) }
  qed
  from family general show ?thesis by blast
qed

theorem ClassifyError_4xx_witness:
  "status4xx (CHR ''0'') (CHR ''3'') = ''endpoint returned error: 403'' \<and>
   plainError (mkError (status4xx (CHR ''0'') (CHR ''3''))) \<and>
   isDigit (CHR ''0'') \<and> isDigit (CHR ''3'') \<and>
   ErrorType (ClassifyError sampleLib (NewErrorRecoveryManager sampleLib None)
      (Some (mkError (status4xx (CHR ''0'') (CHR ''3'')))) ''req-1'' ''a'' ''a'' 0) = ErrorTypeHTTP \<and>
   \<not> ShouldRetry (ClassifyError sampleLib (NewErrorRecoveryManager sampleLib None)
      (Some (mkError (status4xx (CHR ''0'') (CHR ''3'')))) ''req-1'' ''a'' ''a'' 0) \<and>
   \<not> isClientCancelError sampleLib (mkError ''Endpoint returned error: 400 Bad Request'') \<and>
   \<not> isEOFError sampleLib (mkError ''Endpoint returned error: 400 Bad Request'') \<and>
   \<not> isConnectionTimeoutError sampleLib (mkError ''Endpoint returned error: 400 Bad Request'') \<and>
   \<not> isTimeoutError sampleLib (mkError ''Endpoint returned error: 400 Bad Request'') \<and>
   \<not> isNetworkError sampleLib (mkError ''Endpoint returned error: 400 Bad Request'') \<and>
   Contains (ToLower sampleLib (Error (mkError ''Endpoint returned error: 400 Bad Request''))) ''400'' \<and>
   ErrorType (ClassifyError sampleLib (NewErrorRecoveryManager sampleLib None)
      (Some (mkError ''Endpoint returned error: 400 Bad Request'')) ''req-1'' ''a'' ''a'' 0)
     = ErrorTypeRateLimit \<and>
   ErrorType (ClassifyError sampleLib (NewErrorRecoveryManager sampleLib None)
      (Some (mkError ''Endpoint returned error: 404 Not Found'')) ''req-1'' ''a'' ''a'' 0)
     = ErrorTypeHTTP \<and>
   \<not> ShouldRetry (ClassifyError sampleLib (NewErrorRecoveryManager sampleLib None)
      (Some (mkError ''Endpoint returned error: 404 Not Found'')) ''req-1'' ''a'' ''a'' 0)"
proof -
  let ?f = "mkError (status4xx (CHR ''0'') (CHR ''3''))"
  let ?b = "mkError ''Endpoint returned error: 400 Bad Request''"
  let ?n = "mkError ''Endpoint returned error: 404 Not Found''"
  let ?erm = "NewErrorRecoveryManager sampleLib None"
  have msg: "status4xx (CHR ''0'') (CHR ''3'') = ''endpoint returned error: 403''"
    by (simp add: status4xx_def upstream4_def)
  have f: "plainError ?f \<and> Error ?f = status4xx (CHR ''0'') (CHR ''3'') \<and>
           isDigit (CHR ''0'') \<and> isDigit (CHR ''3'')"
    by (simp add: plainError_def mkError_def isDigit_def)
  have b: "\<not> isClientCancelError sampleLib ?b \<and> \<not> isEOFError sampleLib ?b \<and>
           \<not> isConnectionTimeoutError sampleLib ?b \<and> \<not> isTimeoutError sampleLib ?b \<and>
           \<not> isNetworkError sampleLib ?b"
    by code_simp
  have tb: "Contains (ToLower sampleLib (Error ?b)) ''400''"
    by code_simp
  have n: "\<not> isClientCancelError sampleLib ?n \<and> \<not> isEOFError sampleLib ?n \<and>
           \<not> isConnectionTimeoutError sampleLib ?n \<and> \<not> isTimeoutError sampleLib ?n \<and>
           \<not> isNetworkError sampleLib ?n"
    by code_simp
  have tn: "(Contains (ToLower sampleLib (Error ?n)) ''http'' \<or>
             Contains (ToLower sampleLib (Error ?n)) ''status'' \<or>
             Contains (ToLower sampleLib (Error ?n)) ''endpoint returned error'') \<and>
            \<not> rateLimitText (ToLower sampleLib (Error ?n)) \<and>
            \<not> serverErrorText (ToLower sampleLib (Error ?n)) \<and>
            \<not> authText (ToLower sampleLib (Error ?n)) \<and>
            \<not> streamText (ToLower sampleLib (Error ?n))"
    by code_simp
  from ClassifyError_4xx [where e = ?f and x = "CHR ''0''" and y = "CHR ''3''"
      and lib = sampleLib and erm = ?erm and requestID = "''req-1''" and endpoint = "''a''"
      and grp = "''a''" and attempt = 0] f
  have 1: "ErrorType (ClassifyError sampleLib ?erm (Some ?f) ''req-1'' ''a'' ''a'' 0) = ErrorTypeHTTP"
    "\<not> ShouldRetry (ClassifyError sampleLib ?erm (Some ?f) ''req-1'' ''a'' ''a'' 0)"
    by simp_all
  from ClassifyError_4xx [where e = ?b and x = "CHR ''0''" and y = "CHR ''3''"
      and lib = sampleLib and erm = ?erm and requestID = "''req-1''" and endpoint = "''a''"
      and grp = "''a''" and attempt = 0] b tb
  have 2: "ErrorType (ClassifyError sampleLib ?erm (Some ?b) ''req-1'' ''a'' ''a'' 0)
             = ErrorTypeRateLimit"
    by simp
  from ClassifyError_4xx [where e = ?n and x = "CHR ''0''" and y = "CHR ''3''"
      and lib = sampleLib and erm = ?erm and requestID = "''req-1''" and endpoint = "''a''"
      and grp = "''a''" and attempt = 0] n tn
  have 3: "ErrorType (ClassifyError sampleLib ?erm (Some ?n) ''req-1'' ''a'' ''a'' 0) = ErrorTypeHTTP"
    "\<not> ShouldRetry (ClassifyError sampleLib ?erm (Some ?n) ''req-1'' ''a'' ''a'' 0)"
    by simp_all
  from msg f b tb 1 2 3 show ?thesis by simp
qed

text \<open>
  The plain message of an upstream 400, with no rate, quota, limit or throttle wording:
  it is classified RateLimit, not HTTP, and it is retried.
\<close>

theorem ClassifyError_400_counterexample:
  "ErrorType (ClassifyError sampleLib (NewErrorRecoveryManager sampleLib None)
      (Some (mkError ''endpoint returned error: 400'')) ''req-1'' ''a'' ''a'' 0) = ErrorTypeRateLimit \<and>
   ShouldRetry (ClassifyError sampleLib (NewErrorRecoveryManager sampleLib None)
      (Some (mkError ''endpoint returned error: 400'')) ''req-1'' ''a'' ''a'' 0) \<and>
   \<not> Contains (ToLower sampleLib ''endpoint returned error: 400'') ''rate'' \<and>
   \<not> Contains (ToLower sampleLib ''endpoint returned error: 400'') ''quota'' \<and>
   \<not> Contains (ToLower sampleLib ''endpoint returned error: 400'') ''throttle'' \<and>
   \<not> Contains (ToLower sampleLib ''endpoint returned error: 400'') ''limit'' \<and>
   \<not> Contains (ToLower sampleLib ''endpoint returned error: 400'') ''too many requests''"
  by code_simp

section \<open>Credential masking\<close>

lemma last4_as_rev: "4 \<le> length k \<Longrightarrow> drop (length k - 4) k = rev (take 4 (rev k))"
  by (simp add: take_rev)

text \<open>
  Claim C9. For every credential string \<open>k\<close>, \<open>maskKey k\<close> is the literal \<open>****\<close> when
  \<open>k\<close> has at most 8 bytes; otherwise it is the first four bytes of \<open>k\<close>, then \<open>****\<close>,
  then the last four bytes of \<open>k\<close> (twelve bytes in all). In particular a key of
  length 9 gives its bytes 0..3, then \<open>****\<close>, then its bytes 5..8.
\<close>

theorem maskKey_spec:
  "(length k \<le> 8 \<longrightarrow> maskKey k = ''****'') \<and>
   (8 < length k \<longrightarrow>
      maskKey k = take 4 k @ ''****'' @ rev (take 4 (rev k)) \<and>
      length (maskKey k) = 12 \<and>
      take 4 (maskKey k) = take 4 k \<and>
      drop 8 (maskKey k) = drop (length k - 4) k) \<and>
   (length k = 9 \<longrightarrow>
      maskKey k = [k ! 0, k ! 1, k ! 2, k ! 3] @ ''****'' @ [k ! 5, k ! 6, k ! 7, k ! 8])"
proof (intro conjI impI)
  assume "length k \<le> 8"
  then show "maskKey k = ''****''" by (simp add: maskKey_def)
next
  assume l: "8 < length k"
  then have "4 \<le> length k" by simp
  from last4_as_rev [OF this] l
  show "maskKey k = take 4 k @ ''****'' @ rev (take 4 (rev k))"
    by (simp add: maskKey_def)
  from l show "length (maskKey k) = 12" by (simp add: maskKey_def)
  from l show "take 4 (maskKey k) = take 4 k" by (simp add: maskKey_def)
  from l show "drop 8 (maskKey k) = drop (length k - 4) k" by (simp add: maskKey_def)
next
  assume l: "length k = 9"
  then obtain a b c d e f g h i where k: "k = [a, b, c, d, e, f, g, h, i]"
    by (auto simp: length_Suc_conv eval_nat_numeral)
  show "maskKey k = [k ! 0, k ! 1, k ! 2, k ! 3] @ ''****'' @ [k ! 5, k ! 6, k ! 7, k ! 8]"
    unfolding k by (simp add: maskKey_def)
qed

theorem maskKey_spec_witness:
  "maskKey ''12345678'' = ''****'' \<and>
   maskKey ''sk-ant-0123456789'' = ''sk-a****6789'' \<and>
   maskKey ''123456789'' = ''1234****6789''"
  using maskKey_spec [of "''12345678''"] maskKey_spec [of "''sk-ant-0123456789''"]
    maskKey_spec [of "''123456789''"]
  by simp

end
